theory Spec2Isabelle
  imports Complex_Main
begin

section \<open>Exceptions and the error classifier\<close>

text \<open>
  A Python exception is a value. \<open>ApiException status reason\<close> stands for
  \<^verbatim>\<open>ynab.ApiException\<close> and its subclasses (both attributes may be \<^verbatim>\<open>None\<close>);
  \<open>PyException kind description\<close> stands for every other exception, with
  \<^verbatim>\<open>type(e).__name__\<close> and \<^verbatim>\<open>str(e)\<close>.
\<close>

datatype exn = ApiException "int option" "string option" | PyException string string

definition digit_char :: "nat \<Rightarrow> char" where
  "digit_char n = ''0123456789'' ! (n mod 10)"

fun digits_of :: "nat \<Rightarrow> string" where
  "digits_of n = (if n < 10 then [digit_char n] else digits_of (n div 10) @ [digit_char n])"

declare digits_of.simps [simp del]

text \<open>\<^verbatim>\<open>str(i)\<close> for an integer, and what an f-string prints for an attribute that may be \<^verbatim>\<open>None\<close>.\<close>

definition py_str_int :: "int \<Rightarrow> string" where
  "py_str_int i = (if i < 0 then ''-'' @ digits_of (nat (- i)) else digits_of (nat i))"

definition py_str_opt_int :: "int option \<Rightarrow> string" where
  "py_str_opt_int s = (case s of None \<Rightarrow> ''None'' | Some i \<Rightarrow> py_str_int i)"

definition py_str_opt :: "string option \<Rightarrow> string" where
  "py_str_opt s = (case s of None \<Rightarrow> ''None'' | Some t \<Rightarrow> t)"

fun handle_api_error :: "exn \<Rightarrow> string" where
  "handle_api_error (ApiException status reason) =
     (if status = Some 401 then
        ''Error: Invalid API key. Check YNAB_API_KEY environment variable.''
      else if status = Some 403 then
        ''Error: Access forbidden. You don't have permission for this resource.''
      else if status = Some 404 then
        ''Error: Resource not found. Check the ID is correct.''
      else if status = Some 429 then
        ''Error: Rate limit exceeded. Wait before making more requests.''
      else ''Error: YNAB API error '' @ py_str_opt_int status @ '': '' @ py_str_opt reason)"
| "handle_api_error (PyException kind description) =
     ''Error: '' @ kind @ '': '' @ description"

section \<open>Python floats\<close>

text \<open>
  A Python \<^verbatim>\<open>float\<close> is an IEEE 754 binary64. \<open>Finite m e\<close> is the number
  \<open>m * 2 ^ e\<close> (the sign of a zero is not kept: no operation below reads it),
  \<open>Infinity neg\<close> is \<^verbatim>\<open>inf\<close> or \<^verbatim>\<open>-inf\<close>, \<open>NaN\<close> is \<^verbatim>\<open>nan\<close>.
  Every arithmetic result is rounded to the nearest binary64, ties to even.
\<close>

datatype pyfloat = Finite int int | Infinity bool | NaN

definition pow2 :: "int \<Rightarrow> rat" where
  "pow2 e = (if 0 \<le> e then 2 ^ nat e else 1 / 2 ^ nat (- e))"

definition finite_val :: "int \<Rightarrow> int \<Rightarrow> rat" where
  "finite_val m e = of_int m * pow2 e"

text \<open>\<^verbatim>\<open>int.bit_length\<close>: the number of binary digits of a positive integer.\<close>

function bit_length :: "int \<Rightarrow> int" where
  "bit_length n = (if n \<le> 0 then 0 else 1 + bit_length (n div 2))"
  by pat_completeness auto
termination
  by (relation "measure nat") auto

declare bit_length.simps [simp del]

text \<open>\<open>scaled p q e\<close> is the fraction \<open>p / (q * 2 ^ e)\<close> as a pair of integers.\<close>

definition scaled :: "int \<Rightarrow> int \<Rightarrow> int \<Rightarrow> int \<times> int" where
  "scaled p q e = (if 0 \<le> e then (p, q * 2 ^ nat e) else (p * 2 ^ nat (- e), q))"

text \<open>The integer nearest to \<open>p / q\<close>, a tie going to the even neighbour.\<close>

definition round_half_even_div :: "int \<Rightarrow> int \<Rightarrow> int" where
  "round_half_even_div p q =
     (let d = p div q; r = p mod q in
      if 2 * r < q then d else if q < 2 * r then d + 1 else if even d then d else d + 1)"

text \<open>
  The exponent of the binary64 that \<open>p / q\<close> rounds to: the one that puts the
  significand in \<open>[2 ^ 52, 2 ^ 53)\<close>, and \<open>- 1074\<close> in the subnormal range.
\<close>

definition binary64_exponent :: "int \<Rightarrow> int \<Rightarrow> int" where
  "binary64_exponent p q =
     (let e0 = bit_length p - bit_length q - 53;
          (P, Q) = scaled p q e0;
          e1 = (if P < 2 ^ 53 * Q then e0 else e0 + 1)
      in max e1 (- 1074))"

text \<open>
  \<open>round_ratio neg p q\<close> is the binary64 nearest to the fraction \<open>p / q\<close>
  (\<open>0 \<le> p\<close>, \<open>0 < q\<close>) taken with the sign \<open>neg\<close>; a result of \<open>2 ^ 1024\<close> or
  more overflows to an infinity.
\<close>

definition round_ratio :: "bool \<Rightarrow> int \<Rightarrow> int \<Rightarrow> pyfloat" where
  "round_ratio neg p q =
     (let e = binary64_exponent p q;
          (P, Q) = scaled p q e;
          m = round_half_even_div P Q
      in if 971 < e \<or> (e = 971 \<and> 2 ^ 53 \<le> m) then Infinity neg
         else Finite (if neg then - m else m) e)"

text \<open>\<^verbatim>\<open>a / b\<close> on two integers: the correctly rounded quotient, or an exception.\<close>

definition py_int_truediv :: "int \<Rightarrow> int \<Rightarrow> exn + pyfloat" where
  "py_int_truediv a b =
     (if b = 0 then Inl (PyException ''ZeroDivisionError'' ''division by zero'')
      else case round_ratio ((a < 0) \<noteq> (b < 0)) \<bar>a\<bar> \<bar>b\<bar> of
             Infinity neg \<Rightarrow>
               Inl (PyException ''OverflowError'' ''integer division result too large for a float'')
           | r \<Rightarrow> Inr r)"

text \<open>\<^verbatim>\<open>x * y\<close> on two floats.\<close>

fun py_float_mul :: "pyfloat \<Rightarrow> pyfloat \<Rightarrow> pyfloat" where
  "py_float_mul (Finite m1 e1) (Finite m2 e2) =
     (let (P, Q) = scaled \<bar>m1 * m2\<bar> 1 (- (e1 + e2)) in round_ratio (m1 * m2 < 0) P Q)"
| "py_float_mul (Finite m e) (Infinity neg) =
     (if m = 0 then NaN else Infinity ((m < 0) \<noteq> neg))"
| "py_float_mul (Infinity neg) (Finite m e) =
     (if m = 0 then NaN else Infinity ((m < 0) \<noteq> neg))"
| "py_float_mul (Infinity neg1) (Infinity neg2) = Infinity (neg1 \<noteq> neg2)"
| "py_float_mul NaN y = NaN"
| "py_float_mul x NaN = NaN"

text \<open>\<^verbatim>\<open>int(x)\<close> on a float: truncation toward zero, or an exception.\<close>

fun py_int :: "pyfloat \<Rightarrow> exn + int" where
  "py_int (Finite m e) =
     Inr (if 0 \<le> e then m * 2 ^ nat e else sgn m * (\<bar>m\<bar> div 2 ^ nat (- e)))"
| "py_int (Infinity neg) =
     Inl (PyException ''OverflowError'' ''cannot convert float infinity to integer'')"
| "py_int NaN = Inl (PyException ''ValueError'' ''cannot convert float NaN to integer'')"

fun py_float_lt_zero :: "pyfloat \<Rightarrow> bool" where
  "py_float_lt_zero (Finite m e) = (m < 0)"
| "py_float_lt_zero (Infinity neg) = neg"
| "py_float_lt_zero NaN = False"

fun py_float_abs :: "pyfloat \<Rightarrow> pyfloat" where
  "py_float_abs (Finite m e) = Finite \<bar>m\<bar> e"
| "py_float_abs (Infinity neg) = Infinity False"
| "py_float_abs NaN = NaN"

text \<open>
  The format specification \<^verbatim>\<open>,.2f\<close>: the exact value of the float rounded to
  hundredths (ties to even), the integer part grouped in thousands.
\<close>

definition two_digits :: "nat \<Rightarrow> string" where
  "two_digits n = [digit_char (n div 10), digit_char n]"

definition three_digits :: "nat \<Rightarrow> string" where
  "three_digits n = [digit_char (n div 100), digit_char (n div 10), digit_char n]"

fun group_thousands :: "nat \<Rightarrow> string" where
  "group_thousands n =
     (if n < 1000 then digits_of n
      else group_thousands (n div 1000) @ '','' @ three_digits (n mod 1000))"

declare group_thousands.simps [simp del]

definition format_cents :: "nat \<Rightarrow> string" where
  "format_cents c = group_thousands (c div 100) @ ''.'' @ two_digits (c mod 100)"

fun py_format_comma_2f :: "pyfloat \<Rightarrow> string" where
  "py_format_comma_2f (Finite m e) =
     (let (P, Q) = scaled (\<bar>m\<bar> * 100) 1 (- e) in
      (if m < 0 then ''-'' else []) @ format_cents (nat (round_half_even_div P Q)))"
| "py_format_comma_2f (Infinity neg) = (if neg then ''-inf'' else ''inf'')"
| "py_format_comma_2f NaN = ''nan''"

section \<open>MonetaryAmount codec\<close>

definition milliunits_to_dollars :: "int \<Rightarrow> exn + string" where
  "milliunits_to_dollars milliunits =
     (case py_int_truediv milliunits 1000 of
        Inl err \<Rightarrow> Inl err
      | Inr dollars \<Rightarrow>
          if py_float_lt_zero dollars
          then Inr (''-$'' @ py_format_comma_2f (py_float_abs dollars))
          else Inr (''$'' @ py_format_comma_2f dollars))"

text \<open>The integer \<^verbatim>\<open>1000\<close> is converted to the float \<open>1000.0\<close> before the product.\<close>

definition dollars_to_milliunits :: "pyfloat \<Rightarrow> exn + int" where
  "dollars_to_milliunits dollars = py_int (py_float_mul dollars (Finite 1000 0))"

section \<open>Entity mappings and the entity transformer\<close>

text \<open>
  The values that \<^verbatim>\<open>to_dict()\<close> yields. A \<^verbatim>\<open>dict\<close> is an association list in
  insertion order with the first binding of a key the valid one: \<^verbatim>\<open>d[k] = v\<close>
  replaces the binding of \<open>k\<close> in place or appends a new one.
\<close>

datatype json = JNull | JBool bool | JInt int | JStr string | JList "json list"
  | JObj "(string \<times> json) list"

type_synonym dict = "(string \<times> json) list"

definition dict_get :: "dict \<Rightarrow> string \<Rightarrow> json option" where
  "dict_get d k = map_of d k"

fun dict_set :: "dict \<Rightarrow> string \<Rightarrow> json \<Rightarrow> dict" where
  "dict_set [] k v = [(k, v)]"
| "dict_set ((k', v') # d) k v = (if k' = k then (k, v) # d else (k', v') # dict_set d k v)"

text \<open>
  \<^verbatim>\<open>milliunits_to_dollars\<close> applied to a value of a mapping: an integer is converted,
  a boolean counts as the integer 0 or 1, anything else has no division by an integer.
\<close>

fun milliunits_to_dollars_value :: "json \<Rightarrow> exn + string" where
  "milliunits_to_dollars_value (JInt i) = milliunits_to_dollars i"
| "milliunits_to_dollars_value (JBool b) = milliunits_to_dollars (if b then 1 else 0)"
| "milliunits_to_dollars_value v =
     Inl (PyException ''TypeError'' ''unsupported operand type(s) for /'')"

fun transform_amount_fields_loop :: "dict \<Rightarrow> string list \<Rightarrow> exn + dict" where
  "transform_amount_fields_loop result [] = Inr result"
| "transform_amount_fields_loop result (field # fields) =
     (case dict_get result field of
        None \<Rightarrow> transform_amount_fields_loop result fields
      | Some JNull \<Rightarrow> transform_amount_fields_loop result fields
      | Some milliunits \<Rightarrow>
          (case milliunits_to_dollars_value milliunits of
             Inl err \<Rightarrow> Inl err
           | Inr display \<Rightarrow>
               transform_amount_fields_loop
                 (dict_set (dict_set result (field @ ''_milliunits'') milliunits)
                    field (JStr display))
                 fields))"

text \<open>\<^verbatim>\<open>result = dict(obj)\<close> is a copy, so the loop starts from the mapping itself.\<close>

definition transform_amount_fields :: "dict \<Rightarrow> string list \<Rightarrow> exn + dict" where
  "transform_amount_fields obj fields = transform_amount_fields_loop obj fields"

definition transform_account :: "dict \<Rightarrow> exn + dict" where
  "transform_account account =
     transform_amount_fields account [''balance'', ''cleared_balance'', ''uncleared_balance'']"

definition transform_category :: "dict \<Rightarrow> exn + dict" where
  "transform_category category =
     transform_amount_fields category
       [''budgeted'', ''activity'', ''balance'', ''goal_target'', ''goal_overall_left'']"

definition transform_transaction :: "dict \<Rightarrow> exn + dict" where
  "transform_transaction txn = transform_amount_fields txn [''amount'']"

text \<open>
  A list comprehension over a function that may raise: the results in order, or the
  first exception.
\<close>

fun map_result :: "('a \<Rightarrow> exn + 'b) \<Rightarrow> 'a list \<Rightarrow> exn + 'b list" where
  "map_result f [] = Inr []"
| "map_result f (x # xs) =
     (case f x of
        Inl err \<Rightarrow> Inl err
      | Inr y \<Rightarrow> (case map_result f xs of Inl err \<Rightarrow> Inl err | Inr ys \<Rightarrow> Inr (y # ys)))"

text \<open>
  The elements of \<^verbatim>\<open>categories\<close> are mappings in every \<^verbatim>\<open>to_dict()\<close> result; a
  value of another shape is taken to raise a \<^verbatim>\<open>TypeError\<close>.
\<close>

fun transform_category_value :: "json \<Rightarrow> exn + json" where
  "transform_category_value (JObj c) =
     (case transform_category c of Inl err \<Rightarrow> Inl err | Inr c' \<Rightarrow> Inr (JObj c'))"
| "transform_category_value v = Inl (PyException ''TypeError'' ''category is not a mapping'')"

definition transform_month :: "dict \<Rightarrow> exn + dict" where
  "transform_month month =
     (case transform_amount_fields month
             [''income'', ''budgeted'', ''activity'', ''to_be_budgeted''] of
        Inl err \<Rightarrow> Inl err
      | Inr result \<Rightarrow>
          (case dict_get result ''categories'' of
             None \<Rightarrow> Inr result
           | Some (JList cs) \<Rightarrow>
               (case map_result transform_category_value cs of
                  Inl err \<Rightarrow> Inl err
                | Inr cs' \<Rightarrow> Inr (dict_set result ''categories'' (JList cs')))
           | Some v \<Rightarrow> Inl (PyException ''TypeError'' ''categories is not a list'')))"

text \<open>The entity kinds of the transformer and the monetary fields of each.\<close>

datatype entity_kind = Account | Category | Transaction | MonthBudget

fun monetary_fields :: "entity_kind \<Rightarrow> string list" where
  "monetary_fields Account = [''balance'', ''cleared_balance'', ''uncleared_balance'']"
| "monetary_fields Category =
     [''budgeted'', ''activity'', ''balance'', ''goal_target'', ''goal_overall_left'']"
| "monetary_fields Transaction = [''amount'']"
| "monetary_fields MonthBudget = [''income'', ''budgeted'', ''activity'', ''to_be_budgeted'']"

fun transform :: "entity_kind \<Rightarrow> dict \<Rightarrow> exn + dict" where
  "transform Account obj = transform_account obj"
| "transform Category obj = transform_category obj"
| "transform Transaction obj = transform_transaction obj"
| "transform MonthBudget obj = transform_month obj"

section \<open>The environment of a call\<close>

text \<open>
  What a tool reads and writes outside its parameters: the environment variable
  \<^verbatim>\<open>YNAB_API_KEY\<close>, the directory \<^verbatim>\<open>OUTPUT_DIR\<close>, the clock rendered by
  \<^verbatim>\<open>strftime("%Y%m%d_%H%M%S")\<close>, the file system (the content of each path, and
  the \<^verbatim>\<open>OSError\<close> that creating the parent directories or opening a path
  raises, if any), the answers of the upstream service to the four listing
  requests and to the three requests that change it, and the list of the changing
  requests sent so far. \<open>json_dumps\<close> is the serialisation
  \<^verbatim>\<open>json.dumps(value, indent=2, default=str)\<close> of the standard library, left
  abstract.

  A Python \<^verbatim>\<open>str\<close> is represented by the bytes of its UTF-8 encoding, so that
  every text is a string here, and one \<^verbatim>\<open>str\<close> occurs in another exactly when
  its encoding occurs in the encoding of the other (an encoded character never
  starts inside another one). \<open>str_lower\<close> is \<^verbatim>\<open>str.lower\<close> of the standard
  library on these encodings: it follows the Unicode case mappings, may change the
  length of a text, and is left abstract.
\<close>

record world =
  env_api_key :: "string option"
  output_dir :: string
  timestamp :: string
  json_dumps :: "json \<Rightarrow> string"
  str_lower :: "string \<Rightarrow> string"
  files :: "string \<Rightarrow> string option"
  fs_error :: "string \<Rightarrow> exn option"
  api_get_transactions :: "string \<Rightarrow> string option \<Rightarrow> exn + dict list"
  api_get_transactions_by_account ::
    "string \<Rightarrow> string \<Rightarrow> string option \<Rightarrow> exn + dict list"
  api_get_transactions_by_category ::
    "string \<Rightarrow> string \<Rightarrow> string option \<Rightarrow> exn + dict list"
  api_get_transactions_by_payee ::
    "string \<Rightarrow> string \<Rightarrow> string option \<Rightarrow> exn + dict list"
  upstream_writes :: "(string \<times> dict) list"
  api_update_month_category :: "dict \<Rightarrow> exn + dict"
  api_create_transaction :: "dict \<Rightarrow> exn + dict"
  api_create_scheduled_transaction :: "dict \<Rightarrow> exn + dict"

definition CHARACTER_LIMIT :: nat where
  "CHARACTER_LIMIT = 25000"

text \<open>The truth value of an optional string: \<^verbatim>\<open>None\<close> and the empty string are false.\<close>

fun py_truthy :: "string option \<Rightarrow> bool" where
  "py_truthy None = False"
| "py_truthy (Some s) = (s \<noteq> [])"

definition get_api_client :: "world \<Rightarrow> exn + unit" where
  "get_api_client w =
     (if \<not> py_truthy (env_api_key w)
      then Inl (PyException ''ValueError'' ''YNAB_API_KEY environment variable is required'')
      else Inr ())"

text \<open>
  Paths are taken in the normal form of \<^verbatim>\<open>pathlib\<close>, so that \<^verbatim>\<open>str(Path(p))\<close> is
  \<open>p\<close>. Creating the directories and writing the file is one step: it raises, or
  the path holds the serialised data.
\<close>

definition write_to_file ::
  "json \<Rightarrow> string \<Rightarrow> string option \<Rightarrow> world \<Rightarrow> (exn + string) \<times> world" where
  "write_to_file data prefix output_path w =
     (let filepath =
            (if py_truthy output_path then the output_path
             else output_dir w @ ''/'' @ prefix @ ''_'' @ timestamp w @ ''.json'')
      in case fs_error w filepath of
           Some err \<Rightarrow> (Inl err, w)
         | None \<Rightarrow> (Inr filepath, w\<lparr>files := (files w)(filepath \<mapsto> json_dumps w data)\<rparr>))"

section \<open>Listing transactions\<close>

record GetTransactionsInput =
  budget_id :: string
  account_id :: "string option"
  category_id :: "string option"
  payee_id :: "string option"
  since_date :: "string option"
  output_to_file :: bool
  output_path :: "string option"
  summary_only :: bool

definition fetch_transactions :: "GetTransactionsInput \<Rightarrow> world \<Rightarrow> exn + dict list" where
  "fetch_transactions params w =
     (if py_truthy (account_id params) then
        api_get_transactions_by_account w (budget_id params) (the (account_id params))
          (since_date params)
      else if py_truthy (category_id params) then
        api_get_transactions_by_category w (budget_id params) (the (category_id params))
          (since_date params)
      else if py_truthy (payee_id params) then
        api_get_transactions_by_payee w (budget_id params) (the (payee_id params))
          (since_date params)
      else api_get_transactions w (budget_id params) (since_date params))"

text \<open>\<^verbatim>\<open>sum(t.get("amount_milliunits", 0) for t in transactions)\<close>.\<close>

fun amount_milliunits_of :: "dict \<Rightarrow> exn + int" where
  "amount_milliunits_of t =
     (case dict_get t ''amount_milliunits'' of
        None \<Rightarrow> Inr 0
      | Some (JInt i) \<Rightarrow> Inr i
      | Some (JBool b) \<Rightarrow> Inr (if b then 1 else 0)
      | Some v \<Rightarrow> Inl (PyException ''TypeError'' ''unsupported operand type(s) for +''))"

fun sum_amount_milliunits :: "dict list \<Rightarrow> exn + int" where
  "sum_amount_milliunits [] = Inr 0"
| "sum_amount_milliunits (t # ts) =
     (case amount_milliunits_of t of
        Inl err \<Rightarrow> Inl err
      | Inr a \<Rightarrow>
          (case sum_amount_milliunits ts of Inl err \<Rightarrow> Inl err | Inr s \<Rightarrow> Inr (a + s)))"

text \<open>
  The body of the \<^verbatim>\<open>try\<close> block: the text it returns or the exception it raises,
  and the environment it leaves.
\<close>

definition ynab_get_transactions_body ::
  "GetTransactionsInput \<Rightarrow> world \<Rightarrow> (exn + string) \<times> world" where
  "ynab_get_transactions_body params w =
     (case get_api_client w of Inl err \<Rightarrow> (Inl err, w) | Inr api_client \<Rightarrow>
      case fetch_transactions params w of Inl err \<Rightarrow> (Inl err, w) | Inr response \<Rightarrow>
      case map_result transform_transaction response of
        Inl err \<Rightarrow> (Inl err, w) | Inr transactions \<Rightarrow>
      case sum_amount_milliunits transactions of
        Inl err \<Rightarrow> (Inl err, w) | Inr total_milliunits \<Rightarrow>
      case milliunits_to_dollars total_milliunits of
        Inl err \<Rightarrow> (Inl err, w) | Inr total_display \<Rightarrow>
      let count = JInt (int (length transactions)) in
      if summary_only params then
        (Inr (json_dumps w
           (JObj [(''count'', count),
                  (''total_milliunits'', JInt total_milliunits),
                  (''total'', JStr total_display)])), w)
      else
        let summary = JObj [(''count'', count),
                            (''total_milliunits'', JInt total_milliunits),
                            (''total'', JStr total_display),
                            (''transactions'', JList (map JObj transactions))]
        in
        if output_to_file params then
          (case write_to_file summary ''transactions'' (output_path params) w of
             (Inl err, w') \<Rightarrow> (Inl err, w')
           | (Inr filepath, w') \<Rightarrow>
               (Inr (json_dumps w
                  (JObj [(''count'', count),
                         (''total_milliunits'', JInt total_milliunits),
                         (''total'', JStr total_display),
                         (''output_file'', JStr filepath),
                         (''message'', JStr (''Wrote '' @ py_str_int (int (length transactions))
                            @ '' transactions to '' @ filepath))])), w'))
        else
          let result = json_dumps w summary in
          if CHARACTER_LIMIT < length result then
            (case write_to_file summary ''transactions'' (output_path params) w of
               (Inl err, w') \<Rightarrow> (Inl err, w')
             | (Inr filepath, w') \<Rightarrow>
                 (Inr (json_dumps w
                    (JObj [(''count'', count),
                           (''total_milliunits'', JInt total_milliunits),
                           (''total'', JStr total_display),
                           (''output_file'', JStr filepath),
                           (''message'', JStr (''Response too large (''
                              @ py_str_int (int (length result)) @ '' chars). Wrote to ''
                              @ filepath))])), w'))
          else (Inr result, w))"

text \<open>
  The tool: \<^verbatim>\<open>except Exception as e: return handle_api_error(e)\<close> turns every
  exception of the body into text. \<open>Inl\<close> in the result would be an exception that
  leaves the tool.
\<close>

definition ynab_get_transactions ::
  "GetTransactionsInput \<Rightarrow> world \<Rightarrow> (exn + string) \<times> world" where
  "ynab_get_transactions params w =
     (case ynab_get_transactions_body params w of
        (Inl e, w') \<Rightarrow> (Inr (handle_api_error e), w')
      | (Inr result, w') \<Rightarrow> (Inr result, w'))"

section \<open>Searching transactions\<close>

record SearchTransactionsInput =
  budget_id :: string
  query :: string
  since_date :: "string option"
  output_to_file :: bool
  output_path :: "string option"
  summary_only :: bool

text \<open>\<^verbatim>\<open>q in s\<close> on strings: \<open>q\<close> occurs in \<open>s\<close> as a contiguous block.\<close>

fun starts_with :: "string \<Rightarrow> string \<Rightarrow> bool" where
  "starts_with [] s = True"
| "starts_with (c # q) [] = False"
| "starts_with (c # q) (d # s) = (c = d \<and> starts_with q s)"

fun py_in :: "string \<Rightarrow> string \<Rightarrow> bool" where
  "py_in q [] = (q = [])"
| "py_in q (d # s) = (starts_with q (d # s) \<or> py_in q s)"

text \<open>
  A transaction object of the client library is represented by its \<^verbatim>\<open>to_dict()\<close>
  mapping; \<^verbatim>\<open>t.payee_name or ""\<close> reads the attribute, \<^verbatim>\<open>None\<close> (no binding, or
  a null) giving the empty string.
\<close>

definition attr_or_empty :: "dict \<Rightarrow> string \<Rightarrow> string" where
  "attr_or_empty t name = (case dict_get t name of Some (JStr s) \<Rightarrow> s | _ \<Rightarrow> [])"

text \<open>
  The test of the loop and the loop, with the lower-casing function and the
  lower-cased query they use.
\<close>

definition matches_query :: "(string \<Rightarrow> string) \<Rightarrow> string \<Rightarrow> dict \<Rightarrow> bool" where
  "matches_query lower query_lower t =
     (let payee_name = lower (attr_or_empty t ''payee_name'');
          memo = lower (attr_or_empty t ''memo'')
      in py_in query_lower payee_name \<or> py_in query_lower memo)"

fun search_matches ::
  "(string \<Rightarrow> string) \<Rightarrow> string \<Rightarrow> dict list \<Rightarrow> exn + dict list" where
  "search_matches lower query_lower [] = Inr []"
| "search_matches lower query_lower (t # ts) =
     (if matches_query lower query_lower t then
        (case transform_transaction t of
           Inl err \<Rightarrow> Inl err
         | Inr t' \<Rightarrow>
             (case search_matches lower query_lower ts of
                Inl err \<Rightarrow> Inl err
              | Inr matches \<Rightarrow> Inr (t' # matches)))
      else search_matches lower query_lower ts)"

definition ynab_search_transactions_body ::
  "SearchTransactionsInput \<Rightarrow> world \<Rightarrow> (exn + string) \<times> world" where
  "ynab_search_transactions_body params w =
     (case get_api_client w of Inl err \<Rightarrow> (Inl err, w) | Inr api_client \<Rightarrow>
      case api_get_transactions w (SearchTransactionsInput.budget_id params)
             (SearchTransactionsInput.since_date params) of
        Inl err \<Rightarrow> (Inl err, w) | Inr response \<Rightarrow>
      case search_matches (str_lower w) (str_lower w (query params)) response of
        Inl err \<Rightarrow> (Inl err, w) | Inr matches \<Rightarrow>
      case sum_amount_milliunits matches of
        Inl err \<Rightarrow> (Inl err, w) | Inr total_milliunits \<Rightarrow>
      case milliunits_to_dollars total_milliunits of
        Inl err \<Rightarrow> (Inl err, w) | Inr total_display \<Rightarrow>
      let count = JInt (int (length matches)) in
      if SearchTransactionsInput.summary_only params then
        (Inr (json_dumps w
           (JObj [(''query'', JStr (query params)),
                  (''count'', count),
                  (''total_milliunits'', JInt total_milliunits),
                  (''total'', JStr total_display)])), w)
      else
        let summary = JObj [(''query'', JStr (query params)),
                            (''count'', count),
                            (''total_milliunits'', JInt total_milliunits),
                            (''total'', JStr total_display),
                            (''transactions'', JList (map JObj matches))]
        in
        if SearchTransactionsInput.output_to_file params then
          (case write_to_file summary ''search_transactions''
                  (SearchTransactionsInput.output_path params) w of
             (Inl err, w') \<Rightarrow> (Inl err, w')
           | (Inr filepath, w') \<Rightarrow>
               (Inr (json_dumps w
                  (JObj [(''query'', JStr (query params)),
                         (''count'', count),
                         (''total_milliunits'', JInt total_milliunits),
                         (''total'', JStr total_display),
                         (''output_file'', JStr filepath),
                         (''message'', JStr (''Found '' @ py_str_int (int (length matches))
                            @ '' matching transactions. Wrote to '' @ filepath))])), w'))
        else
          let result = json_dumps w summary in
          if CHARACTER_LIMIT < length result then
            (case write_to_file summary ''search_transactions''
                    (SearchTransactionsInput.output_path params) w of
               (Inl err, w') \<Rightarrow> (Inl err, w')
             | (Inr filepath, w') \<Rightarrow>
                 (Inr (json_dumps w
                    (JObj [(''query'', JStr (query params)),
                           (''count'', count),
                           (''total_milliunits'', JInt total_milliunits),
                           (''total'', JStr total_display),
                           (''output_file'', JStr filepath),
                           (''message'', JStr (''Response too large. Wrote to '' @ filepath))])),
                  w'))
          else (Inr result, w))"

definition ynab_search_transactions ::
  "SearchTransactionsInput \<Rightarrow> world \<Rightarrow> (exn + string) \<times> world" where
  "ynab_search_transactions params w =
     (case ynab_search_transactions_body params w of
        (Inl e, w') \<Rightarrow> (Inr (handle_api_error e), w')
      | (Inr result, w') \<Rightarrow> (Inr result, w'))"

section \<open>Predicates and examples used in the statements\<close>

text \<open>
  Every amount of the mapping under one of the fields is absent, null, or an integer
  that the codec renders.
\<close>

definition amounts_renderable :: "string list \<Rightarrow> dict \<Rightarrow> bool" where
  "amounts_renderable flds obj =
     (\<forall>f \<in> set flds. \<forall>v. dict_get obj f = Some v \<longrightarrow>
        v = JNull \<or> (\<exists>i s. v = JInt i \<and> milliunits_to_dollars i = Inr s))"

text \<open>No field is written twice, and no field is the \<open>_milliunits\<close> key of another.\<close>

definition clash_free :: "string list \<Rightarrow> bool" where
  "clash_free flds =
     (distinct flds \<and> (\<forall>f \<in> set flds. \<forall>g \<in> set flds. f \<noteq> g @ ''_milliunits''))"

text \<open>The \<^verbatim>\<open>categories\<close> of a month, when present, are category mappings.\<close>

definition categories_renderable :: "dict \<Rightarrow> bool" where
  "categories_renderable obj =
     (case dict_get obj ''categories'' of
        None \<Rightarrow> True
      | Some (JList cs) \<Rightarrow>
          (\<forall>c \<in> set cs. \<exists>d. c = JObj d \<and>
             amounts_renderable
               [''budgeted'', ''activity'', ''balance'', ''goal_target'', ''goal_overall_left''] d)
      | Some v \<Rightarrow> False)"

text \<open>
  An instance of the serialiser for the examples: compact JSON, strings without
  escapes.
\<close>

primrec render_json :: "json \<Rightarrow> string" where
  "render_json JNull = ''null''"
| "render_json (JBool b) = (if b then ''true'' else ''false'')"
| "render_json (JInt i) = py_str_int i"
| "render_json (JStr s) = ''\"'' @ s @ ''\"''"
| "render_json (JList xs) = ''['' @ concat (map render_json xs) @ '']''"
| "render_json (JObj d) =
     ''{'' @ concat (map (\<lambda>(k, v). ''\"'' @ k @ ''\": '' @ v @ '','')
                      (map (map_prod id render_json) d)) @ ''}''"

text \<open>
  What the transformer does at one monetary field: an integer is kept under the
  \<open>_milliunits\<close> key and replaced by its display string; an absent or null field
  is left as it is, and so is its \<open>_milliunits\<close> key.
\<close>

definition field_transformed :: "dict \<Rightarrow> dict \<Rightarrow> string \<Rightarrow> bool" where
  "field_transformed obj res f =
     ((\<forall>i. dict_get obj f = Some (JInt i) \<longrightarrow>
         dict_get res (f @ ''_milliunits'') = Some (JInt i) \<and>
         (\<exists>s. milliunits_to_dollars i = Inr s \<and> dict_get res f = Some (JStr s))) \<and>
      (dict_get obj f = None \<or> dict_get obj f = Some JNull \<longrightarrow>
         dict_get res f = dict_get obj f \<and>
         dict_get res (f @ ''_milliunits'') = dict_get obj (f @ ''_milliunits'')))"

text \<open>
  The full document of a listing, the path a spill resolves to, and the integer
  amount of a transaction as the service sent it.
\<close>

definition listing_summary :: "dict list \<Rightarrow> int \<Rightarrow> string \<Rightarrow> json" where
  "listing_summary transactions total_milliunits total_display =
     JObj [(''count'', JInt (int (length transactions))),
           (''total_milliunits'', JInt total_milliunits),
           (''total'', JStr total_display),
           (''transactions'', JList (map JObj transactions))]"

definition spill_path :: "string \<Rightarrow> string option \<Rightarrow> world \<Rightarrow> string" where
  "spill_path prefix path w =
     (if py_truthy path then the path
      else output_dir w @ ''/'' @ prefix @ ''_'' @ timestamp w @ ''.json'')"

definition amount_of :: "dict \<Rightarrow> int" where
  "amount_of t = (case dict_get t ''amount'' of Some (JInt a) \<Rightarrow> a | _ \<Rightarrow> 0)"

definition example_account :: dict where
  "example_account =
     [(''name'', JStr ''Checking''), (''balance'', JInt 1234567890),
      (''cleared_balance'', JNull)]"

text \<open>
  An instance of \<open>str_lower\<close> for the examples: \<^verbatim>\<open>str.lower\<close> on ASCII text.
\<close>

definition lower_char :: "char \<Rightarrow> char" where
  "lower_char c =
     (case map_of (zip ''ABCDEFGHIJKLMNOPQRSTUVWXYZ'' ''abcdefghijklmnopqrstuvwxyz'') c of
        Some l \<Rightarrow> l
      | None \<Rightarrow> c)"

definition ascii_lower :: "string \<Rightarrow> string" where
  "ascii_lower s = map lower_char s"

definition example_transactions :: "dict list" where
  "example_transactions =
     [[(''id'', JStr ''t1''), (''amount'', JInt (- 4500)),
       (''payee_name'', JStr ''Blue Bottle Coffee'')],
      [(''id'', JStr ''t2''), (''amount'', JInt (- 12340)), (''payee_name'', JStr ''Staples''),
       (''memo'', JStr ''Office coffee run'')],
      [(''id'', JStr ''t3''), (''amount'', JInt 2500000), (''payee_name'', JStr ''Employer'')]]"

definition example_world :: world where
  "example_world =
     \<lparr>env_api_key = Some ''token'',
      output_dir = ''/tmp/ynab-mcp'',
      timestamp = ''20240101_120000'',
      json_dumps = render_json,
      str_lower = ascii_lower,
      files = Map.empty,
      fs_error = (\<lambda>path. None),
      api_get_transactions = (\<lambda>budget since. Inr example_transactions),
      api_get_transactions_by_account = (\<lambda>budget account since. Inr []),
      api_get_transactions_by_category = (\<lambda>budget category since. Inr []),
      api_get_transactions_by_payee = (\<lambda>budget payee since. Inr []),
      upstream_writes = [],
      api_update_month_category = (\<lambda>request. Inr request),
      api_create_transaction = (\<lambda>request. Inr request),
      api_create_scheduled_transaction = (\<lambda>request. Inr request)\<rparr>"

definition example_listing :: GetTransactionsInput where
  "example_listing =
     \<lparr>GetTransactionsInput.budget_id = ''last-used'', account_id = None, category_id = None,
      payee_id = None, GetTransactionsInput.since_date = None,
      GetTransactionsInput.output_to_file = True, GetTransactionsInput.output_path = None,
      GetTransactionsInput.summary_only = True\<rparr>"

definition example_search :: SearchTransactionsInput where
  "example_search =
     \<lparr>SearchTransactionsInput.budget_id = ''last-used'', query = ''coffee'',
      SearchTransactionsInput.since_date = None,
      SearchTransactionsInput.output_to_file = True,
      SearchTransactionsInput.output_path = None,
      SearchTransactionsInput.summary_only = True\<rparr>"

definition example_transformed :: "dict list" where
  "example_transformed =
     [[(''id'', JStr ''t1''), (''amount'', JStr ''-$4.50''),
       (''payee_name'', JStr ''Blue Bottle Coffee''), (''amount_milliunits'', JInt (- 4500))],
      [(''id'', JStr ''t2''), (''amount'', JStr ''-$12.34''), (''payee_name'', JStr ''Staples''),
       (''memo'', JStr ''Office coffee run''), (''amount_milliunits'', JInt (- 12340))],
      [(''id'', JStr ''t3''), (''amount'', JStr ''$2,500.00''), (''payee_name'', JStr ''Employer''),
       (''amount_milliunits'', JInt 2500000)]]"


definition inline_listing :: GetTransactionsInput where
  "inline_listing =
     example_listing\<lparr>GetTransactionsInput.output_to_file := False,
       GetTransactionsInput.summary_only := False\<rparr>"


definition padded_world :: world where
  "padded_world =
     example_world\<lparr>json_dumps := (\<lambda>j. render_json j @ replicate 25000 (CHR '' ''))\<rparr>"

text \<open>
  The search of the examples: the query in capitals, answered inline, and what it
  finds in the example listing.
\<close>

definition inline_search :: SearchTransactionsInput where
  "inline_search =
     \<lparr>SearchTransactionsInput.budget_id = ''last-used'', query = ''COFFEE'',
      SearchTransactionsInput.since_date = None,
      SearchTransactionsInput.output_to_file = False,
      SearchTransactionsInput.output_path = None,
      SearchTransactionsInput.summary_only = False\<rparr>"

definition coffee_matches :: "dict list" where
  "coffee_matches =
     [[(''id'', JStr ''t1''), (''amount'', JStr ''-$4.50''),
       (''payee_name'', JStr ''Blue Bottle Coffee''), (''amount_milliunits'', JInt (- 4500))],
      [(''id'', JStr ''t2''), (''amount'', JStr ''-$12.34''), (''payee_name'', JStr ''Staples''),
       (''memo'', JStr ''Office coffee run''), (''amount_milliunits'', JInt (- 12340))]]"

definition coffee_document :: json where
  "coffee_document =
     JObj [(''query'', JStr ''COFFEE''),
           (''count'', JInt 2),
           (''total_milliunits'', JInt (- 16840)),
           (''total'', JStr ''-$16.84''),
           (''transactions'', JList (map JObj coffee_matches))]"

section \<open>Amount inputs and the tools that write\<close>

text \<open>
  The three parameter classes with the validator \<^verbatim>\<open>exactly_one_amount\<close>, which runs
  when the framework builds the parameter object, and the tools that take them. A
  validator either returns the object or raises.
\<close>

record UpdateCategoryBudgetInput =
  budget_id :: string
  category_id :: string
  month :: string
  amount_milliunits :: "int option"
  amount_dollars :: "pyfloat option"

definition UpdateCategoryBudgetInput_exactly_one_amount ::
  "UpdateCategoryBudgetInput \<Rightarrow> exn + UpdateCategoryBudgetInput" where
  "UpdateCategoryBudgetInput_exactly_one_amount self =
     (let has_milli = (UpdateCategoryBudgetInput.amount_milliunits self \<noteq> None);
          has_dollar = (UpdateCategoryBudgetInput.amount_dollars self \<noteq> None)
      in if has_milli = has_dollar
         then Inl (PyException ''ValueError''
                ''Provide exactly one of amount_milliunits or amount_dollars'')
         else Inr self)"

text \<open>
  \<^verbatim>\<open>dollars_to_milliunits(params.amount_dollars)\<close>: on \<^verbatim>\<open>None\<close> the product
  raises a \<^verbatim>\<open>TypeError\<close>.
\<close>

definition amount_from_inputs :: "int option \<Rightarrow> pyfloat option \<Rightarrow> exn + int" where
  "amount_from_inputs milliunits dollars =
     (case milliunits of
        Some a \<Rightarrow> Inr a
      | None \<Rightarrow>
          (case dollars of
             Some d \<Rightarrow> dollars_to_milliunits d
           | None \<Rightarrow> Inl (PyException ''TypeError'' ''unsupported operand type(s) for *'')))"

definition json_of_optional :: "string option \<Rightarrow> json" where
  "json_of_optional s = (case s of None \<Rightarrow> JNull | Some x \<Rightarrow> JStr x)"

text \<open>
  A request that changes the service is recorded in \<open>upstream_writes\<close> when it is
  sent, whatever the service answers.
\<close>

definition ynab_update_category_budget_body ::
  "UpdateCategoryBudgetInput \<Rightarrow> world \<Rightarrow> (exn + string) \<times> world" where
  "ynab_update_category_budget_body params w =
     (case amount_from_inputs (UpdateCategoryBudgetInput.amount_milliunits params)
             (UpdateCategoryBudgetInput.amount_dollars params) of
        Inl err \<Rightarrow> (Inl err, w) | Inr budgeted \<Rightarrow>
      case get_api_client w of Inl err \<Rightarrow> (Inl err, w) | Inr api_client \<Rightarrow>
      let request = [(''budget_id'', JStr (UpdateCategoryBudgetInput.budget_id params)),
                     (''month'', JStr (month params)),
                     (''category_id'', JStr (UpdateCategoryBudgetInput.category_id params)),
                     (''budgeted'', JInt budgeted)];
          w' = w\<lparr>upstream_writes := upstream_writes w @ [(''update_month_category'', request)]\<rparr>
      in case api_update_month_category w request of
           Inl err \<Rightarrow> (Inl err, w')
         | Inr response \<Rightarrow>
             (case transform_category response of
                Inl err \<Rightarrow> (Inl err, w')
              | Inr category \<Rightarrow>
                  (Inr (json_dumps w
                     (JObj [(''success'', JBool True), (''category'', JObj category)])), w')))"

definition ynab_update_category_budget ::
  "UpdateCategoryBudgetInput \<Rightarrow> world \<Rightarrow> (exn + string) \<times> world" where
  "ynab_update_category_budget params w =
     (case ynab_update_category_budget_body params w of
        (Inl e, w') \<Rightarrow> (Inr (handle_api_error e), w')
      | (Inr result, w') \<Rightarrow> (Inr result, w'))"

record CreateTransactionInput =
  budget_id :: string
  account_id :: string
  date :: string
  amount_milliunits :: "int option"
  amount_dollars :: "pyfloat option"
  payee_id :: "string option"
  payee_name :: "string option"
  category_id :: "string option"
  memo :: "string option"
  cleared :: "string option"
  approved :: bool

definition CreateTransactionInput_exactly_one_amount ::
  "CreateTransactionInput \<Rightarrow> exn + CreateTransactionInput" where
  "CreateTransactionInput_exactly_one_amount self =
     (let has_milli = (CreateTransactionInput.amount_milliunits self \<noteq> None);
          has_dollar = (CreateTransactionInput.amount_dollars self \<noteq> None)
      in if has_milli = has_dollar
         then Inl (PyException ''ValueError''
                ''Provide exactly one of amount_milliunits or amount_dollars'')
         else Inr self)"

definition ynab_create_transaction_body ::
  "CreateTransactionInput \<Rightarrow> world \<Rightarrow> (exn + string) \<times> world" where
  "ynab_create_transaction_body params w =
     (case amount_from_inputs (CreateTransactionInput.amount_milliunits params)
             (CreateTransactionInput.amount_dollars params) of
        Inl err \<Rightarrow> (Inl err, w) | Inr amount \<Rightarrow>
      case get_api_client w of Inl err \<Rightarrow> (Inl err, w) | Inr api_client \<Rightarrow>
      let txn = [(''budget_id'', JStr (CreateTransactionInput.budget_id params)),
                 (''account_id'', JStr (CreateTransactionInput.account_id params)),
                 (''date'', JStr (date params)),
                 (''amount'', JInt amount),
                 (''payee_id'', json_of_optional (CreateTransactionInput.payee_id params)),
                 (''payee_name'', json_of_optional (CreateTransactionInput.payee_name params)),
                 (''category_id'', json_of_optional (CreateTransactionInput.category_id params)),
                 (''memo'', json_of_optional (CreateTransactionInput.memo params)),
                 (''cleared'', json_of_optional (cleared params)),
                 (''approved'', JBool (approved params))];
          w' = w\<lparr>upstream_writes := upstream_writes w @ [(''create_transaction'', txn)]\<rparr>
      in case api_create_transaction w txn of
           Inl err \<Rightarrow> (Inl err, w')
         | Inr response \<Rightarrow>
             (case transform_transaction response of
                Inl err \<Rightarrow> (Inl err, w')
              | Inr transaction \<Rightarrow>
                  (Inr (json_dumps w
                     (JObj [(''success'', JBool True), (''transaction'', JObj transaction)])),
                   w')))"

definition ynab_create_transaction ::
  "CreateTransactionInput \<Rightarrow> world \<Rightarrow> (exn + string) \<times> world" where
  "ynab_create_transaction params w =
     (case ynab_create_transaction_body params w of
        (Inl e, w') \<Rightarrow> (Inr (handle_api_error e), w')
      | (Inr result, w') \<Rightarrow> (Inr result, w'))"

record CreateScheduledTransactionInput =
  budget_id :: string
  account_id :: string
  date_first :: string
  frequency :: string
  amount_milliunits :: "int option"
  amount_dollars :: "pyfloat option"
  payee_id :: "string option"
  payee_name :: "string option"
  category_id :: "string option"
  memo :: "string option"

definition CreateScheduledTransactionInput_exactly_one_amount ::
  "CreateScheduledTransactionInput \<Rightarrow> exn + CreateScheduledTransactionInput" where
  "CreateScheduledTransactionInput_exactly_one_amount self =
     (let has_milli = (CreateScheduledTransactionInput.amount_milliunits self \<noteq> None);
          has_dollar = (CreateScheduledTransactionInput.amount_dollars self \<noteq> None)
      in if has_milli = has_dollar
         then Inl (PyException ''ValueError''
                ''Provide exactly one of amount_milliunits or amount_dollars'')
         else Inr self)"

definition ynab_create_scheduled_transaction_body ::
  "CreateScheduledTransactionInput \<Rightarrow> world \<Rightarrow> (exn + string) \<times> world" where
  "ynab_create_scheduled_transaction_body params w =
     (case amount_from_inputs (CreateScheduledTransactionInput.amount_milliunits params)
             (CreateScheduledTransactionInput.amount_dollars params) of
        Inl err \<Rightarrow> (Inl err, w) | Inr amount \<Rightarrow>
      case get_api_client w of Inl err \<Rightarrow> (Inl err, w) | Inr api_client \<Rightarrow>
      let txn = [(''budget_id'', JStr (CreateScheduledTransactionInput.budget_id params)),
                 (''account_id'', JStr (CreateScheduledTransactionInput.account_id params)),
                 (''date'', JStr (date_first params)),
                 (''frequency'', JStr (frequency params)),
                 (''amount'', JInt amount),
                 (''payee_id'',
                    json_of_optional (CreateScheduledTransactionInput.payee_id params)),
                 (''payee_name'',
                    json_of_optional (CreateScheduledTransactionInput.payee_name params)),
                 (''category_id'',
                    json_of_optional (CreateScheduledTransactionInput.category_id params)),
                 (''memo'', json_of_optional (CreateScheduledTransactionInput.memo params))];
          w' = w\<lparr>upstream_writes :=
                   upstream_writes w @ [(''create_scheduled_transaction'', txn)]\<rparr>
      in case api_create_scheduled_transaction w txn of
           Inl err \<Rightarrow> (Inl err, w')
         | Inr response \<Rightarrow>
             (case transform_transaction response of
                Inl err \<Rightarrow> (Inl err, w')
              | Inr scheduled_transaction \<Rightarrow>
                  (Inr (json_dumps w
                     (JObj [(''success'', JBool True),
                            (''scheduled_transaction'', JObj scheduled_transaction)])),
                   w')))"

definition ynab_create_scheduled_transaction ::
  "CreateScheduledTransactionInput \<Rightarrow> world \<Rightarrow> (exn + string) \<times> world" where
  "ynab_create_scheduled_transaction params w =
     (case ynab_create_scheduled_transaction_body params w of
        (Inl e, w') \<Rightarrow> (Inr (handle_api_error e), w')
      | (Inr result, w') \<Rightarrow> (Inr result, w'))"

text \<open>
  A call of a tool: the framework builds the parameter object from the arguments,
  which runs the validator, and calls the tool with the object. An exception of the
  validator becomes the \<^verbatim>\<open>ValidationError\<close> of the construction, and the tool is not
  called.
\<close>

definition call_tool ::
  "('p \<Rightarrow> exn + 'p) \<Rightarrow> ('p \<Rightarrow> world \<Rightarrow> (exn + string) \<times> world) \<Rightarrow> 'p \<Rightarrow> world
     \<Rightarrow> (exn + string) \<times> world" where
  "call_tool validator tool arguments w =
     (case validator arguments of
        Inl (PyException kind description) \<Rightarrow>
          (Inl (PyException ''ValidationError'' description), w)
      | Inl err \<Rightarrow> (Inl err, w)
      | Inr params \<Rightarrow> tool params w)"

definition example_create :: CreateTransactionInput where
  "example_create =
     \<lparr>CreateTransactionInput.budget_id = ''last-used'',
      CreateTransactionInput.account_id = ''checking'',
      date = ''2024-01-01'',
      CreateTransactionInput.amount_milliunits = None,
      CreateTransactionInput.amount_dollars = None,
      CreateTransactionInput.payee_id = None,
      CreateTransactionInput.payee_name = Some ''Blue Bottle Coffee'',
      CreateTransactionInput.category_id = None,
      CreateTransactionInput.memo = None,
      cleared = Some ''uncleared'',
      approved = True\<rparr>"

lemmas float_eval = round_ratio_def binary64_exponent_def round_half_even_div_def scaled_def
  bit_length.simps

lemmas string_eval = format_cents_def group_thousands.simps two_digits_def three_digits_def
  digits_of.simps digit_char_def

section \<open>Properties\<close>

text \<open>
  C7. The error classifier is a total function from failures to text. An upstream
  failure with status 401 gives the invalid-credential message, 403 the
  insufficient-permission message, 404 the resource-not-found message, 429 the
  rate-limit message; any other upstream status gives the generic message that
  contains the status and the reason; every other failure gives the generic message
  that contains the name of the failure kind and its description.
\<close>

theorem handle_api_error_classifies:
  "handle_api_error (ApiException (Some 401) reason) =
     ''Error: Invalid API key. Check YNAB_API_KEY environment variable.''
   \<and> handle_api_error (ApiException (Some 403) reason) =
     ''Error: Access forbidden. You don't have permission for this resource.''
   \<and> handle_api_error (ApiException (Some 404) reason) =
     ''Error: Resource not found. Check the ID is correct.''
   \<and> handle_api_error (ApiException (Some 429) reason) =
     ''Error: Rate limit exceeded. Wait before making more requests.''
   \<and> (status \<notin> {Some 401, Some 403, Some 404, Some 429} \<longrightarrow>
        handle_api_error (ApiException status reason) =
          ''Error: YNAB API error '' @ py_str_opt_int status @ '': '' @ py_str_opt reason)
   \<and> handle_api_error (PyException kind description) =
     ''Error: '' @ kind @ '': '' @ description"
  by simp

theorem handle_api_error_classifies_witness:
  "Some 500 \<notin> {Some 401, Some 403, Some 404, Some (429::int)}
   \<and> handle_api_error (ApiException (Some 500) (Some ''Internal Server Error'')) =
       ''Error: YNAB API error 500: Internal Server Error''
   \<and> handle_api_error (PyException ''ValueError'' ''YNAB_API_KEY environment variable is required'') =
       ''Error: ValueError: YNAB_API_KEY environment variable is required''"
  using handle_api_error_classifies [of "Some ''Internal Server Error''" "Some 500"
      "''ValueError''" "''YNAB_API_KEY environment variable is required''"]
  by (simp add: py_str_opt_int_def py_str_opt_def py_str_int_def digits_of.simps digit_char_def)

subsection \<open>Writing a file\<close>

lemma write_to_file_cases:
  "write_to_file d pre path w = (r, w') \<Longrightarrow>
     (\<exists>err. r = Inl err \<and> w' = w) \<or>
     (\<exists>fp. r = Inr fp \<and> fs_error w fp = None
         \<and> w' = w\<lparr>files := (files w)(fp \<mapsto> json_dumps w d)\<rparr>)"
  by (auto simp: write_to_file_def Let_def split: option.splits)

text \<open>
  C10. A listing call or a search call with \<open>summary_only\<close> set leaves the file
  system, and the whole environment, as it found it, whatever \<open>output_to_file\<close>,
  \<open>output_path\<close> and the size of the result are: the summary is returned before
  any code that writes a file.
\<close>

theorem summary_only_writes_no_file:
  "(GetTransactionsInput.summary_only p \<longrightarrow> snd (ynab_get_transactions p w) = w)
   \<and> (SearchTransactionsInput.summary_only q \<longrightarrow> snd (ynab_search_transactions q w) = w)"
  by (simp add: ynab_get_transactions_def ynab_get_transactions_body_def
      ynab_search_transactions_def ynab_search_transactions_body_def Let_def
      split: sum.splits prod.splits)

theorem summary_only_writes_no_file_witness:
  "GetTransactionsInput.summary_only example_listing
   \<and> GetTransactionsInput.output_to_file example_listing
   \<and> snd (ynab_get_transactions example_listing example_world) = example_world
   \<and> SearchTransactionsInput.summary_only example_search
   \<and> snd (ynab_search_transactions example_search example_world) = example_world"
  using summary_only_writes_no_file [of example_listing example_world example_search]
  by (simp add: example_listing_def example_search_def)

subsection \<open>The entity transformer\<close>

lemma dict_get_set: "dict_get (dict_set d k v) k' = (if k' = k then Some v else dict_get d k')"
  by (induction d) (auto simp: dict_get_def)

lemma transform_loop_char:
  assumes "clash_free flds" "amounts_renderable flds obj"
  shows "\<exists>res. transform_amount_fields_loop obj flds = Inr res \<and>
     (\<forall>f \<in> set flds. \<forall>i. dict_get obj f = Some (JInt i) \<longrightarrow>
        dict_get res (f @ ''_milliunits'') = Some (JInt i) \<and>
        (\<exists>s. milliunits_to_dollars i = Inr s \<and> dict_get res f = Some (JStr s))) \<and>
     (\<forall>f \<in> set flds. dict_get obj f = None \<or> dict_get obj f = Some JNull \<longrightarrow>
        dict_get res f = dict_get obj f \<and>
        dict_get res (f @ ''_milliunits'') = dict_get obj (f @ ''_milliunits'')) \<and>
     (\<forall>k. k \<notin> set flds \<and> (\<forall>f \<in> set flds. k \<noteq> f @ ''_milliunits'') \<longrightarrow>
        dict_get res k = dict_get obj k)"
  using assms
proof (induction flds arbitrary: obj)
  case Nil
  then show ?case by simp
next
  case (Cons f flds)
  from Cons.prems(1) have cf: "clash_free flds" and fnotin: "f \<notin> set flds"
    and nf1: "\<forall>g \<in> set flds. f \<noteq> g @ ''_milliunits''"
    and nf2: "\<forall>g \<in> set flds. g \<noteq> f @ ''_milliunits''"
    and nf3: "f \<noteq> f @ ''_milliunits''"
    by (auto simp: clash_free_def)
  from nf2 have m_notin: "f @ ''_milliunits'' \<notin> set flds" by blast
  from fnotin have m_ne: "\<forall>g \<in> set flds. f @ ''_milliunits'' \<noteq> g @ ''_milliunits''" by auto
  consider (absent) "dict_get obj f = None" | (null) "dict_get obj f = Some JNull"
    | (int) i s where "dict_get obj f = Some (JInt i)" "milliunits_to_dollars i = Inr s"
    using Cons.prems(2) by (fastforce simp: amounts_renderable_def)
  then show ?case
  proof cases
    case absent
    have ar: "amounts_renderable flds obj" using Cons.prems(2) by (simp add: amounts_renderable_def)
    from Cons.IH [OF cf ar] obtain res where r: "transform_amount_fields_loop obj flds = Inr res"
      and p1: "\<forall>g \<in> set flds. \<forall>i. dict_get obj g = Some (JInt i) \<longrightarrow>
        dict_get res (g @ ''_milliunits'') = Some (JInt i) \<and>
        (\<exists>s. milliunits_to_dollars i = Inr s \<and> dict_get res g = Some (JStr s))"
      and p2: "\<forall>g \<in> set flds. dict_get obj g = None \<or> dict_get obj g = Some JNull \<longrightarrow>
        dict_get res g = dict_get obj g \<and>
        dict_get res (g @ ''_milliunits'') = dict_get obj (g @ ''_milliunits'')"
      and p3: "\<forall>k. k \<notin> set flds \<and> (\<forall>g \<in> set flds. k \<noteq> g @ ''_milliunits'') \<longrightarrow>
        dict_get res k = dict_get obj k" by blast
    have "transform_amount_fields_loop obj (f # flds) = Inr res" using absent r by simp
    moreover have "dict_get res f = dict_get obj f" using p3 fnotin nf1 by blast
    moreover have "dict_get res (f @ ''_milliunits'') = dict_get obj (f @ ''_milliunits'')"
      using p3 m_notin m_ne by blast
    ultimately show ?thesis using p1 p2 p3 absent by auto
  next
    case null
    have ar: "amounts_renderable flds obj" using Cons.prems(2) by (simp add: amounts_renderable_def)
    from Cons.IH [OF cf ar] obtain res where r: "transform_amount_fields_loop obj flds = Inr res"
      and p1: "\<forall>g \<in> set flds. \<forall>i. dict_get obj g = Some (JInt i) \<longrightarrow>
        dict_get res (g @ ''_milliunits'') = Some (JInt i) \<and>
        (\<exists>s. milliunits_to_dollars i = Inr s \<and> dict_get res g = Some (JStr s))"
      and p2: "\<forall>g \<in> set flds. dict_get obj g = None \<or> dict_get obj g = Some JNull \<longrightarrow>
        dict_get res g = dict_get obj g \<and>
        dict_get res (g @ ''_milliunits'') = dict_get obj (g @ ''_milliunits'')"
      and p3: "\<forall>k. k \<notin> set flds \<and> (\<forall>g \<in> set flds. k \<noteq> g @ ''_milliunits'') \<longrightarrow>
        dict_get res k = dict_get obj k" by blast
    have "transform_amount_fields_loop obj (f # flds) = Inr res" using null r by simp
    moreover have "dict_get res f = dict_get obj f" using p3 fnotin nf1 by blast
    moreover have "dict_get res (f @ ''_milliunits'') = dict_get obj (f @ ''_milliunits'')"
      using p3 m_notin m_ne by blast
    ultimately show ?thesis using p1 p2 p3 null by auto
  next
    case int
    define obj' where "obj' = dict_set (dict_set obj (f @ ''_milliunits'') (JInt i)) f (JStr s)"
    have same: "dict_get obj' k = dict_get obj k" if "k \<noteq> f" "k \<noteq> f @ ''_milliunits''" for k
      using that by (simp add: obj'_def dict_get_set)
    have atf: "dict_get obj' f = Some (JStr s)" by (simp add: obj'_def dict_get_set)
    have atm: "dict_get obj' (f @ ''_milliunits'') = Some (JInt i)"
      using nf3 by (simp add: obj'_def dict_get_set)
    have same_fields: "dict_get obj' g = dict_get obj g" if "g \<in> set flds" for g
      using that fnotin nf2 by (intro same) auto
    have same_milli: "dict_get obj' (g @ ''_milliunits'') = dict_get obj (g @ ''_milliunits'')"
      if "g \<in> set flds" for g
      using that fnotin nf1 by (intro same) auto
    have ar: "amounts_renderable flds obj'"
      using Cons.prems(2) same_fields by (simp add: amounts_renderable_def)
    from Cons.IH [OF cf ar] obtain res where r: "transform_amount_fields_loop obj' flds = Inr res"
      and p1: "\<forall>g \<in> set flds. \<forall>i. dict_get obj' g = Some (JInt i) \<longrightarrow>
        dict_get res (g @ ''_milliunits'') = Some (JInt i) \<and>
        (\<exists>s. milliunits_to_dollars i = Inr s \<and> dict_get res g = Some (JStr s))"
      and p2: "\<forall>g \<in> set flds. dict_get obj' g = None \<or> dict_get obj' g = Some JNull \<longrightarrow>
        dict_get res g = dict_get obj' g \<and>
        dict_get res (g @ ''_milliunits'') = dict_get obj' (g @ ''_milliunits'')"
      and p3: "\<forall>k. k \<notin> set flds \<and> (\<forall>g \<in> set flds. k \<noteq> g @ ''_milliunits'') \<longrightarrow>
        dict_get res k = dict_get obj' k" by blast
    have run: "transform_amount_fields_loop obj (f # flds) = Inr res"
      using int r by (simp add: obj'_def)
    have rf: "dict_get res f = Some (JStr s)" using p3 fnotin nf1 atf by auto
    have rm: "dict_get res (f @ ''_milliunits'') = Some (JInt i)" using p3 m_notin m_ne atm by (metis (no_types))
    have q1: "\<forall>g \<in> set (f # flds). \<forall>j. dict_get obj g = Some (JInt j) \<longrightarrow>
        dict_get res (g @ ''_milliunits'') = Some (JInt j) \<and>
        (\<exists>s. milliunits_to_dollars j = Inr s \<and> dict_get res g = Some (JStr s))"
      using p1 same_fields rf rm int by auto
    have q2: "\<forall>g \<in> set (f # flds). dict_get obj g = None \<or> dict_get obj g = Some JNull \<longrightarrow>
        dict_get res g = dict_get obj g \<and>
        dict_get res (g @ ''_milliunits'') = dict_get obj (g @ ''_milliunits'')"
      using p2 same_fields same_milli int by auto
    have q3: "\<forall>k. k \<notin> set (f # flds) \<and> (\<forall>g \<in> set (f # flds). k \<noteq> g @ ''_milliunits'') \<longrightarrow>
        dict_get res k = dict_get obj k"
      using p3 same by auto
    show ?thesis using run q1 q2 q3 by blast
  qed
qed


lemma clash_free_lists:
  "clash_free [''balance'', ''cleared_balance'', ''uncleared_balance'']"
  "clash_free [''budgeted'', ''activity'', ''balance'', ''goal_target'', ''goal_overall_left'']"
  "clash_free [''amount'']"
  "clash_free [''income'', ''budgeted'', ''activity'', ''to_be_budgeted'']"
  by (simp_all add: clash_free_def)

lemma map_result_all:
  assumes "\<forall>x \<in> set xs. \<exists>y. f x = Inr y"
  shows "\<exists>ys. map_result f xs = Inr ys"
  using assms by (induction xs) auto

lemma transform_amount_fields_ok:
  assumes "clash_free flds" "amounts_renderable flds obj"
  shows "\<exists>res. transform_amount_fields obj flds = Inr res \<and>
           (\<forall>f \<in> set flds. field_transformed obj res f) \<and>
           (\<forall>k. k \<notin> set flds \<and> (\<forall>f \<in> set flds. k \<noteq> f @ ''_milliunits'') \<longrightarrow>
              dict_get res k = dict_get obj k)"
proof -
  from transform_loop_char [OF assms] obtain res
    where r: "transform_amount_fields_loop obj flds = Inr res"
      and p1: "\<forall>g \<in> set flds. \<forall>i. dict_get obj g = Some (JInt i) \<longrightarrow>
        dict_get res (g @ ''_milliunits'') = Some (JInt i) \<and>
        (\<exists>s. milliunits_to_dollars i = Inr s \<and> dict_get res g = Some (JStr s))"
      and p2: "\<forall>g \<in> set flds. dict_get obj g = None \<or> dict_get obj g = Some JNull \<longrightarrow>
        dict_get res g = dict_get obj g \<and>
        dict_get res (g @ ''_milliunits'') = dict_get obj (g @ ''_milliunits'')"
      and p3: "\<forall>k. k \<notin> set flds \<and> (\<forall>g \<in> set flds. k \<noteq> g @ ''_milliunits'') \<longrightarrow>
        dict_get res k = dict_get obj k" by blast
  have "field_transformed obj res f" if "f \<in> set flds" for f
    unfolding field_transformed_def using p1 [rule_format, OF that] p2 [rule_format, OF that]
    by simp
  then have "\<forall>f \<in> set flds. field_transformed obj res f" by simp
  then show ?thesis using r p3 unfolding transform_amount_fields_def by (intro exI conjI)
qed

lemma transform_category_value_ok:
  assumes "amounts_renderable
     [''budgeted'', ''activity'', ''balance'', ''goal_target'', ''goal_overall_left''] d"
  shows "\<exists>y. transform_category_value (JObj d) = Inr y"
proof -
  from transform_amount_fields_ok [OF clash_free_lists(2) assms]
  obtain res where "transform_category d = Inr res" unfolding transform_category_def by blast
  then show ?thesis by simp
qed

text \<open>
  C3. For each entity kind and each monetary field of its fixed list: when the
  amounts present are integers the codec renders, the transformation returns a
  mapping in which a field that held the integer \<open>v\<close> now holds the display string
  of \<open>v\<close>, with \<open>v\<close> itself under the key \<open>field_milliunits\<close>; a field that
  was absent or null is unchanged, and no \<open>_milliunits\<close> key is added for it.
\<close>

theorem transform_monetary_fields:
  assumes "amounts_renderable (monetary_fields kind) obj"
    and "kind = MonthBudget \<longrightarrow> categories_renderable obj"
  shows "\<exists>res. transform kind obj = Inr res \<and>
           (\<forall>f \<in> set (monetary_fields kind). field_transformed obj res f)"
proof (cases kind)
  case Account
  have "\<exists>res. transform_amount_fields obj (monetary_fields Account) = Inr res \<and>
           (\<forall>f \<in> set (monetary_fields Account). field_transformed obj res f)"
    using transform_amount_fields_ok [OF clash_free_lists(1)] assms(1)
    unfolding Account monetary_fields.simps by blast
  then show ?thesis
    unfolding Account monetary_fields.simps transform.simps transform_account_def .
next
  case Category
  have "\<exists>res. transform_amount_fields obj (monetary_fields Category) = Inr res \<and>
           (\<forall>f \<in> set (monetary_fields Category). field_transformed obj res f)"
    using transform_amount_fields_ok [OF clash_free_lists(2)] assms(1)
    unfolding Category monetary_fields.simps by blast
  then show ?thesis
    unfolding Category monetary_fields.simps transform.simps transform_category_def .
next
  case Transaction
  have "\<exists>res. transform_amount_fields obj (monetary_fields Transaction) = Inr res \<and>
           (\<forall>f \<in> set (monetary_fields Transaction). field_transformed obj res f)"
    using transform_amount_fields_ok [OF clash_free_lists(3)] assms(1)
    unfolding Transaction monetary_fields.simps by blast
  then show ?thesis
    unfolding Transaction monetary_fields.simps transform.simps transform_transaction_def .
next
  case MonthBudget
  define flds where "flds = monetary_fields MonthBudget"
  have flds_eq: "flds = [''income'', ''budgeted'', ''activity'', ''to_be_budgeted'']"
    by (simp add: flds_def)
  have ar: "amounts_renderable flds obj" using assms(1) MonthBudget by (simp add: flds_def)
  have cr: "categories_renderable obj" using assms(2) MonthBudget by simp
  have cf: "clash_free flds" unfolding flds_eq by (rule clash_free_lists(4))
  from transform_amount_fields_ok [OF cf ar]
  obtain res where r: "transform_amount_fields obj flds = Inr res"
    and ft: "\<forall>f \<in> set flds. field_transformed obj res f"
    and frame: "\<forall>k. k \<notin> set flds \<and> (\<forall>f \<in> set flds. k \<noteq> f @ ''_milliunits'') \<longrightarrow>
              dict_get res k = dict_get obj k" by blast
  have c1: "''categories'' \<notin> set flds" by (simp add: flds_eq)
  have c2: "\<forall>f \<in> set flds. ''categories'' \<noteq> f @ ''_milliunits''" by (simp add: flds_eq)
  have cat: "dict_get res ''categories'' = dict_get obj ''categories''"
    using frame c1 c2 by blast
  have month: "transform_month obj =
      (case dict_get obj ''categories'' of
         None \<Rightarrow> Inr res
       | Some (JList cs) \<Rightarrow>
           (case map_result transform_category_value cs of
              Inl err \<Rightarrow> Inl err
            | Inr cs' \<Rightarrow> Inr (dict_set res ''categories'' (JList cs')))
       | Some v \<Rightarrow> Inl (PyException ''TypeError'' ''categories is not a list''))"
    using r cat unfolding transform_month_def flds_eq by simp
  show ?thesis
  proof (cases "dict_get obj ''categories''")
    case None
    then have "transform_month obj = Inr res" using month by simp
    then show ?thesis using ft unfolding MonthBudget transform.simps flds_def by blast
  next
    case (Some v)
    define cflds where
      "cflds = [''budgeted'', ''activity'', ''balance'', ''goal_target'', ''goal_overall_left'']"
    from cr Some have "\<exists>cs. v = JList cs \<and>
        (\<forall>c \<in> set cs. \<exists>d. c = JObj d \<and> amounts_renderable cflds d)"
      unfolding categories_renderable_def cflds_def by (cases v) simp_all
    then obtain cs where v: "v = JList cs"
      and all: "\<forall>c \<in> set cs. \<exists>d. c = JObj d \<and> amounts_renderable cflds d"
      by blast
    have ok: "\<exists>y. transform_category_value (JObj d) = Inr y" if "amounts_renderable cflds d" for d
      by (rule transform_category_value_ok) (rule that [unfolded cflds_def])
    have "\<forall>c \<in> set cs. \<exists>y. transform_category_value c = Inr y"
    proof
      fix c assume "c \<in> set cs"
      with all have "\<exists>d. c = JObj d \<and> amounts_renderable cflds d" by (rule bspec)
      then obtain d where "c = JObj d" "amounts_renderable cflds d" by (elim exE conjE)
      then show "\<exists>y. transform_category_value c = Inr y" using ok by simp
    qed
    from map_result_all [OF this] obtain cs' where
      m: "map_result transform_category_value cs = Inr cs'" by blast
    have run: "transform_month obj = Inr (dict_set res ''categories'' (JList cs'))"
      using month Some v m by simp
    have "field_transformed obj (dict_set res ''categories'' (JList cs')) f"
      if "f \<in> set flds" for f
    proof -
      have "f \<noteq> ''categories''" using that c1 by blast
      moreover have "f @ ''_milliunits'' \<noteq> ''categories''"
        using c2 [rule_format, OF that] by simp
      moreover have "field_transformed obj res f" using ft that by blast
      ultimately show ?thesis by (simp add: field_transformed_def dict_get_set)
    qed
    then show ?thesis using run unfolding MonthBudget transform.simps flds_def by blast
  qed
qed

lemma milliunits_to_dollars_example: "milliunits_to_dollars 1234567890 = Inr ''$1,234,567.89''"
  by (simp add: milliunits_to_dollars_def py_int_truediv_def float_eval string_eval)

theorem transform_monetary_fields_witness:
  "amounts_renderable (monetary_fields Account) example_account
   \<and> (\<exists>res. transform Account example_account = Inr res \<and>
          (\<forall>f \<in> set (monetary_fields Account). field_transformed example_account res f))"
proof -
  have h: "amounts_renderable (monetary_fields Account) example_account"
    by (simp add: amounts_renderable_def example_account_def dict_get_def
        milliunits_to_dollars_example)
  show ?thesis using transform_monetary_fields [OF h] h by simp
qed

subsection \<open>Listing transactions\<close>

lemma write_to_file_ok:
  "fs_error w (spill_path prefix path w) = None \<Longrightarrow>
   write_to_file d prefix path w =
     (Inr (spill_path prefix path w),
      w\<lparr>files := (files w)(spill_path prefix path w \<mapsto> json_dumps w d)\<rparr>)"
  by (simp add: write_to_file_def spill_path_def Let_def)


lemma listing_body_after_fetch:
  assumes "py_truthy (env_api_key w)"
    and "fetch_transactions p w = Inr response"
    and "map_result transform_transaction response = Inr transactions"
    and "sum_amount_milliunits transactions = Inr total_milliunits"
    and "milliunits_to_dollars total_milliunits = Inr total_display"
  shows "ynab_get_transactions_body p w =
     (let count = JInt (int (length transactions)) in
      if GetTransactionsInput.summary_only p then
        (Inr (json_dumps w
           (JObj [(''count'', count),
                  (''total_milliunits'', JInt total_milliunits),
                  (''total'', JStr total_display)])), w)
      else
        let summary = listing_summary transactions total_milliunits total_display in
        if GetTransactionsInput.output_to_file p then
          (case write_to_file summary ''transactions'' (GetTransactionsInput.output_path p) w of
             (Inl err, w') \<Rightarrow> (Inl err, w')
           | (Inr filepath, w') \<Rightarrow>
               (Inr (json_dumps w
                  (JObj [(''count'', count),
                         (''total_milliunits'', JInt total_milliunits),
                         (''total'', JStr total_display),
                         (''output_file'', JStr filepath),
                         (''message'', JStr (''Wrote '' @ py_str_int (int (length transactions))
                            @ '' transactions to '' @ filepath))])), w'))
        else
          let result = json_dumps w summary in
          if CHARACTER_LIMIT < length result then
            (case write_to_file summary ''transactions'' (GetTransactionsInput.output_path p) w of
               (Inl err, w') \<Rightarrow> (Inl err, w')
             | (Inr filepath, w') \<Rightarrow>
                 (Inr (json_dumps w
                    (JObj [(''count'', count),
                           (''total_milliunits'', JInt total_milliunits),
                           (''total'', JStr total_display),
                           (''output_file'', JStr filepath),
                           (''message'', JStr (''Response too large (''
                              @ py_str_int (int (length result)) @ '' chars). Wrote to ''
                              @ filepath))])), w'))
          else (Inr result, w))"
  using assms
  by (simp add: ynab_get_transactions_body_def get_api_client_def listing_summary_def Let_def)

lemma transform_transaction_amount:
  assumes "dict_get t ''amount'' = Some (JInt a)" "milliunits_to_dollars a = Inr s"
  shows "\<exists>t'. transform_transaction t = Inr t' \<and> amount_milliunits_of t' = Inr a"
  using assms
  by (simp add: transform_transaction_def transform_amount_fields_def dict_get_set)

lemma transform_all_amounts:
  assumes "\<forall>t \<in> set response. \<exists>a s. dict_get t ''amount'' = Some (JInt a)
              \<and> milliunits_to_dollars a = Inr s"
  shows "\<exists>transactions. map_result transform_transaction response = Inr transactions
           \<and> length transactions = length response
           \<and> sum_amount_milliunits transactions = Inr (sum_list (map amount_of response))"
  using assms
proof (induction response)
  case Nil
  then show ?case by simp
next
  case (Cons t response)
  from Cons.prems obtain a s where a: "dict_get t ''amount'' = Some (JInt a)"
    "milliunits_to_dollars a = Inr s" by auto
  from transform_transaction_amount [OF a] obtain t' where
    t': "transform_transaction t = Inr t'" "amount_milliunits_of t' = Inr a" by blast
  from Cons obtain transactions where
    ih: "map_result transform_transaction response = Inr transactions"
      "length transactions = length response"
      "sum_amount_milliunits transactions = Inr (sum_list (map amount_of response))"
    by auto
  have "amount_of t = a" using a by (simp add: amount_of_def)
  then have "map_result transform_transaction (t # response) = Inr (t' # transactions)
      \<and> length (t' # transactions) = length (t # response)
      \<and> sum_amount_milliunits (t' # transactions) = Inr (sum_list (map amount_of (t # response)))"
    using t' ih by (simp del: amount_milliunits_of.simps)
  then show ?case by blast
qed

text \<open>
  C6. A listing call with \<open>summary_only\<close> set, whatever \<open>output_to_file\<close> is,
  returns the serialisation of exactly \<open>count\<close>, \<open>total_milliunits\<close> and
  \<open>total\<close>, with no \<open>transactions\<close> key: \<open>count\<close> is the number of
  transactions fetched, \<open>total_milliunits\<close> is the sum of their integer amounts as
  the service sent them, and \<open>total\<close> is the display string of that sum. The
  environment is unchanged.
\<close>

theorem summary_only_listing:
  assumes "GetTransactionsInput.summary_only p"
    and "py_truthy (env_api_key w)"
    and "fetch_transactions p w = Inr response"
    and "\<forall>t \<in> set response. \<exists>a s. dict_get t ''amount'' = Some (JInt a)
           \<and> milliunits_to_dollars a = Inr s"
    and "milliunits_to_dollars (sum_list (map amount_of response)) = Inr total_display"
  shows "ynab_get_transactions p w =
     (Inr (json_dumps w
        (JObj [(''count'', JInt (int (length response))),
               (''total_milliunits'', JInt (sum_list (map amount_of response))),
               (''total'', JStr total_display)])), w)"
proof -
  from transform_all_amounts [OF assms(4)] obtain transactions where
    tr: "map_result transform_transaction response = Inr transactions"
      "length transactions = length response"
      "sum_amount_milliunits transactions = Inr (sum_list (map amount_of response))"
    by blast
  from listing_body_after_fetch [OF assms(2,3) tr(1) tr(3) assms(5)] assms(1) tr(2)
  show ?thesis by (simp add: ynab_get_transactions_def)
qed

text \<open>
  C5. A listing call with neither \<open>output_to_file\<close> nor \<open>summary_only\<close> set
  serialises the full document first. When the serialisation is longer than 25000
  characters (and the file system takes the file), the document is written to the
  resolved path and the call returns the compact summary with \<open>count\<close>,
  \<open>total_milliunits\<close>, \<open>total\<close>, the path and a message; otherwise the
  serialisation itself is returned and the environment, its files included, is
  unchanged.
\<close>

theorem oversize_listing_spills:
  assumes "\<not> GetTransactionsInput.output_to_file p"
    and "\<not> GetTransactionsInput.summary_only p"
    and "py_truthy (env_api_key w)"
    and "fetch_transactions p w = Inr response"
    and "map_result transform_transaction response = Inr transactions"
    and "sum_amount_milliunits transactions = Inr total_milliunits"
    and "milliunits_to_dollars total_milliunits = Inr total_display"
    and "result = json_dumps w (listing_summary transactions total_milliunits total_display)"
    and "path = spill_path ''transactions'' (GetTransactionsInput.output_path p) w"
  shows "(25000 < length result \<and> fs_error w path = None \<longrightarrow>
            ynab_get_transactions p w =
              (Inr (json_dumps w
                 (JObj [(''count'', JInt (int (length transactions))),
                        (''total_milliunits'', JInt total_milliunits),
                        (''total'', JStr total_display),
                        (''output_file'', JStr path),
                        (''message'', JStr (''Response too large (''
                            @ py_str_int (int (length result)) @ '' chars). Wrote to ''
                            @ path))])),
               w\<lparr>files := (files w)(path \<mapsto> result)\<rparr>))
       \<and> (length result \<le> 25000 \<longrightarrow> ynab_get_transactions p w = (Inr result, w))"
  using listing_body_after_fetch [OF assms(3-7)] assms(1,2,8,9)
  by (auto simp: ynab_get_transactions_def CHARACTER_LIMIT_def Let_def write_to_file_ok)



subsection \<open>The listing tool on the example environment\<close>

lemma display_examples:
  "milliunits_to_dollars (- 4500) = Inr ''-$4.50''"
  "milliunits_to_dollars (- 12340) = Inr ''-$12.34''"
  "milliunits_to_dollars 2500000 = Inr ''$2,500.00''"
  "milliunits_to_dollars 2483160 = Inr ''$2,483.16''"
  by (simp_all add: milliunits_to_dollars_def py_int_truediv_def float_eval string_eval)

lemma example_transform:
  "map_result transform_transaction example_transactions = Inr example_transformed"
  by (simp add: example_transactions_def example_transformed_def transform_transaction_def
      transform_amount_fields_def dict_get_def display_examples)

lemma example_sum: "sum_amount_milliunits example_transformed = Inr 2483160"
  by (simp add: example_transformed_def dict_get_def)

lemma example_amounts:
  "\<forall>t \<in> set example_transactions. \<exists>a s. dict_get t ''amount'' = Some (JInt a)
      \<and> milliunits_to_dollars a = Inr s"
  by (simp add: example_transactions_def dict_get_def display_examples)

lemma example_total: "sum_list (map amount_of example_transactions) = 2483160"
  by (simp add: example_transactions_def amount_of_def dict_get_def)

lemma example_fetch:
  "fetch_transactions (example_listing\<lparr>GetTransactionsInput.output_to_file := o1,
      GetTransactionsInput.summary_only := s1\<rparr>) (example_world\<lparr>json_dumps := j, fs_error := fe\<rparr>)
     = Inr example_transactions"
  by (simp add: fetch_transactions_def example_listing_def example_world_def)

lemma example_key: "py_truthy (env_api_key (example_world\<lparr>json_dumps := j, fs_error := fe\<rparr>))"
  by (simp add: example_world_def)

theorem summary_only_listing_witness:
  "GetTransactionsInput.summary_only example_listing
   \<and> GetTransactionsInput.output_to_file example_listing
   \<and> ynab_get_transactions example_listing example_world =
       (Inr (render_json
          (JObj [(''count'', JInt 3),
                 (''total_milliunits'', JInt 2483160),
                 (''total'', JStr ''$2,483.16'')])), example_world)"
proof -
  have s: "GetTransactionsInput.summary_only example_listing"
    "GetTransactionsInput.output_to_file example_listing"
    by (simp_all add: example_listing_def)
  have k: "py_truthy (env_api_key example_world)" by (simp add: example_world_def)
  have f: "fetch_transactions example_listing example_world = Inr example_transactions"
    by (simp add: fetch_transactions_def example_listing_def example_world_def)
  have t: "milliunits_to_dollars (sum_list (map amount_of example_transactions))
             = Inr ''$2,483.16''"
    by (simp add: example_total display_examples)
  have n: "length example_transactions = 3" by (simp add: example_transactions_def)
  have d: "json_dumps example_world = render_json" by (simp add: example_world_def)
  from summary_only_listing [OF s(1) k f example_amounts t] s
  show ?thesis by (simp add: example_total n d)
qed

lemma example_path:
  "spill_path ''transactions'' None example_world = ''/tmp/ynab-mcp/transactions_20240101_120000.json''"
  by (simp add: spill_path_def example_world_def)



lemma example_document_length:
  "length (render_json (listing_summary example_transformed 2483160 ''$2,483.16'')) \<le> 25000"
  by (simp add: listing_summary_def example_transformed_def py_str_int_def digits_of.simps
      digit_char_def)

theorem oversize_listing_spills_witness:
  "\<not> GetTransactionsInput.output_to_file inline_listing
   \<and> \<not> GetTransactionsInput.summary_only inline_listing
   \<and> length (json_dumps example_world
         (listing_summary example_transformed 2483160 ''$2,483.16'')) \<le> 25000
   \<and> ynab_get_transactions inline_listing example_world =
       (Inr (json_dumps example_world
          (listing_summary example_transformed 2483160 ''$2,483.16'')), example_world)
   \<and> 25000 < length (json_dumps padded_world
         (listing_summary example_transformed 2483160 ''$2,483.16''))
   \<and> fs_error padded_world ''/tmp/ynab-mcp/transactions_20240101_120000.json'' = None
   \<and> files (snd (ynab_get_transactions inline_listing padded_world))
         ''/tmp/ynab-mcp/transactions_20240101_120000.json''
       = Some (json_dumps padded_world
           (listing_summary example_transformed 2483160 ''$2,483.16''))"
proof -
  let ?doc = "listing_summary example_transformed 2483160 ''$2,483.16''"
  let ?path = "''/tmp/ynab-mcp/transactions_20240101_120000.json''"
  have s: "\<not> GetTransactionsInput.output_to_file inline_listing"
    "\<not> GetTransactionsInput.summary_only inline_listing"
    by (simp_all add: inline_listing_def example_listing_def)
  have k: "py_truthy (env_api_key example_world)" "py_truthy (env_api_key padded_world)"
    by (simp_all add: padded_world_def example_world_def)
  have f: "fetch_transactions inline_listing example_world = Inr example_transactions"
    "fetch_transactions inline_listing padded_world = Inr example_transactions"
    by (simp_all add: fetch_transactions_def inline_listing_def example_listing_def
        padded_world_def example_world_def)
  have p: "spill_path ''transactions'' (GetTransactionsInput.output_path inline_listing)
      example_world = ?path"
    "spill_path ''transactions'' (GetTransactionsInput.output_path inline_listing)
      padded_world = ?path"
    by (simp_all add: spill_path_def inline_listing_def example_listing_def padded_world_def
        example_world_def)
  have small: "length (json_dumps example_world ?doc) \<le> 25000"
    using example_document_length by (simp add: example_world_def)
  have large: "25000 < length (json_dumps padded_world ?doc)"
    by (simp add: padded_world_def example_world_def listing_summary_def)
  have ok: "fs_error padded_world ?path = None"
    by (simp add: padded_world_def example_world_def)
  have a: "ynab_get_transactions inline_listing example_world =
       (Inr (json_dumps example_world ?doc), example_world)"
    using oversize_listing_spills [OF s k(1) f(1) example_transform example_sum
        display_examples(4) refl p(1) [symmetric]] small by blast
  have b: "files (snd (ynab_get_transactions inline_listing padded_world)) ?path
       = Some (json_dumps padded_world ?doc)"
    using oversize_listing_spills [OF s k(2) f(2) example_transform example_sum
        display_examples(4) refl p(2) [symmetric]] large ok by simp
  show ?thesis using s small a large ok b by blast
qed


subsection \<open>Searching\<close>

lemma starts_with_iff: "starts_with q s \<longleftrightarrow> (\<exists>ss. s = q @ ss)"
  by (induction q s rule: starts_with.induct) auto

lemma py_in_iff: "py_in q s \<longleftrightarrow> (\<exists>ps ss. s = ps @ q @ ss)"
proof (induction s)
  case Nil
  then show ?case by simp
next
  case (Cons d s)
  show ?case
  proof
    assume "py_in q (d # s)"
    then consider "starts_with q (d # s)" | "py_in q s" by auto
    then show "\<exists>ps ss. d # s = ps @ q @ ss"
    proof cases
      case 1
      then obtain ss where "d # s = q @ ss" using starts_with_iff by blast
      then have "d # s = [] @ q @ ss" by simp
      then show ?thesis by blast
    next
      case 2
      with Cons.IH obtain ps ss where "s = ps @ q @ ss" by blast
      then have "d # s = (d # ps) @ q @ ss" by simp
      then show ?thesis by blast
    qed
  next
    assume "\<exists>ps ss. d # s = ps @ q @ ss"
    then obtain ps ss where eq: "d # s = ps @ q @ ss" by blast
    show "py_in q (d # s)"
    proof (cases ps)
      case Nil
      with eq have "starts_with q (d # s)" using starts_with_iff by auto
      then show ?thesis by simp
    next
      case (Cons a ps')
      with eq have "s = ps' @ q @ ss" by simp
      then have "py_in q s" using Cons.IH by blast
      then show ?thesis by simp
    qed
  qed
qed

lemma search_matches_filter:
  "search_matches lower ql ts =
     map_result transform_transaction (filter (matches_query lower ql) ts)"
  by (induction ts) (auto split: sum.splits)

lemma matches_query_iff:
  "matches_query lower (lower q) t \<longleftrightarrow>
     (\<exists>ps ss. lower (case map_of t ''payee_name'' of Some (JStr s) \<Rightarrow> s | _ \<Rightarrow> [])
                = ps @ lower q @ ss)
     \<or> (\<exists>ps ss. lower (case map_of t ''memo'' of Some (JStr s) \<Rightarrow> s | _ \<Rightarrow> [])
                = ps @ lower q @ ss)"
  by (simp add: matches_query_def Let_def py_in_iff attr_or_empty_def dict_get_def)

lemma search_body_inline:
  assumes "py_truthy (env_api_key w)"
    and "api_get_transactions w (SearchTransactionsInput.budget_id p)
           (SearchTransactionsInput.since_date p) = Inr response"
    and "search_matches (str_lower w) (str_lower w (query p)) response = Inr matches"
    and "sum_amount_milliunits matches = Inr total_milliunits"
    and "milliunits_to_dollars total_milliunits = Inr total_display"
    and "\<not> SearchTransactionsInput.summary_only p"
    and "\<not> SearchTransactionsInput.output_to_file p"
    and "length (json_dumps w
           (JObj [(''query'', JStr (query p)),
                  (''count'', JInt (int (length matches))),
                  (''total_milliunits'', JInt total_milliunits),
                  (''total'', JStr total_display),
                  (''transactions'', JList (map JObj matches))])) \<le> 25000"
  shows "ynab_search_transactions p w =
     (Inr (json_dumps w
        (JObj [(''query'', JStr (query p)),
               (''count'', JInt (int (length matches))),
               (''total_milliunits'', JInt total_milliunits),
               (''total'', JStr total_display),
               (''transactions'', JList (map JObj matches))])), w)"
  using assms
  by (simp add: ynab_search_transactions_def ynab_search_transactions_body_def
      get_api_client_def CHARACTER_LIMIT_def Let_def)

text \<open>
  C8. For every query \<open>q\<close> and every listing, the search loop keeps exactly the
  transactions \<open>t\<close> for which the lower-cased query occurs as a contiguous block
  in the lower-cased payee name of \<open>t\<close> or in its lower-cased memo (an absent or
  null one counting as the empty text), in the order of the listing, and transforms
  each of them. The tool runs this loop on the full listing that
  \<^verbatim>\<open>api.get_transactions\<close> returns, with the lower-casing of the standard
  library and the query of the call: a call that answers inline returns the
  document whose \<open>transactions\<close> are exactly these.
\<close>

theorem search_includes_substring_matches:
  "search_matches lower (lower q) ts =
     map_result transform_transaction
       (filter (\<lambda>t.
          (\<exists>ps ss. lower (case map_of t ''payee_name'' of Some (JStr s) \<Rightarrow> s | _ \<Rightarrow> [])
                     = ps @ lower q @ ss)
          \<or> (\<exists>ps ss. lower (case map_of t ''memo'' of Some (JStr s) \<Rightarrow> s | _ \<Rightarrow> [])
                     = ps @ lower q @ ss)) ts)
   \<and> (py_truthy (env_api_key w)
        \<and> api_get_transactions w (SearchTransactionsInput.budget_id p)
              (SearchTransactionsInput.since_date p) = Inr response
        \<and> map_result transform_transaction
              (filter (\<lambda>t.
                 (\<exists>ps ss. str_lower w
                      (case map_of t ''payee_name'' of Some (JStr s) \<Rightarrow> s | _ \<Rightarrow> [])
                            = ps @ str_lower w (query p) @ ss)
                 \<or> (\<exists>ps ss. str_lower w
                      (case map_of t ''memo'' of Some (JStr s) \<Rightarrow> s | _ \<Rightarrow> [])
                            = ps @ str_lower w (query p) @ ss)) response) = Inr matches
        \<and> sum_amount_milliunits matches = Inr total_milliunits
        \<and> milliunits_to_dollars total_milliunits = Inr total_display
        \<and> \<not> SearchTransactionsInput.summary_only p
        \<and> \<not> SearchTransactionsInput.output_to_file p
        \<and> length (json_dumps w
             (JObj [(''query'', JStr (query p)),
                    (''count'', JInt (int (length matches))),
                    (''total_milliunits'', JInt total_milliunits),
                    (''total'', JStr total_display),
                    (''transactions'', JList (map JObj matches))])) \<le> 25000
      \<longrightarrow> ynab_search_transactions p w =
           (Inr (json_dumps w
              (JObj [(''query'', JStr (query p)),
                     (''count'', JInt (int (length matches))),
                     (''total_milliunits'', JInt total_milliunits),
                     (''total'', JStr total_display),
                     (''transactions'', JList (map JObj matches))])), w))"
proof -
  have eq: "search_matches lw (lw x) xs =
     map_result transform_transaction
       (filter (\<lambda>t.
          (\<exists>ps ss. lw (case map_of t ''payee_name'' of Some (JStr s) \<Rightarrow> s | _ \<Rightarrow> [])
                     = ps @ lw x @ ss)
          \<or> (\<exists>ps ss. lw (case map_of t ''memo'' of Some (JStr s) \<Rightarrow> s | _ \<Rightarrow> [])
                     = ps @ lw x @ ss)) xs)" for lw x xs
  proof -
    have "matches_query lw (lw x) = (\<lambda>t.
          (\<exists>ps ss. lw (case map_of t ''payee_name'' of Some (JStr s) \<Rightarrow> s | _ \<Rightarrow> [])
                     = ps @ lw x @ ss)
          \<or> (\<exists>ps ss. lw (case map_of t ''memo'' of Some (JStr s) \<Rightarrow> s | _ \<Rightarrow> [])
                     = ps @ lw x @ ss))"
      by (rule ext) (rule matches_query_iff)
    then show ?thesis using search_matches_filter [of lw "lw x" xs] by simp
  qed
  have tool: "ynab_search_transactions p w =
           (Inr (json_dumps w
              (JObj [(''query'', JStr (query p)),
                     (''count'', JInt (int (length matches))),
                     (''total_milliunits'', JInt total_milliunits),
                     (''total'', JStr total_display),
                     (''transactions'', JList (map JObj matches))])), w)"
    if h: "py_truthy (env_api_key w)"
      "api_get_transactions w (SearchTransactionsInput.budget_id p)
              (SearchTransactionsInput.since_date p) = Inr response"
      "search_matches (str_lower w) (str_lower w (query p)) response = Inr matches"
      "sum_amount_milliunits matches = Inr total_milliunits"
      "milliunits_to_dollars total_milliunits = Inr total_display"
      "\<not> SearchTransactionsInput.summary_only p"
      "\<not> SearchTransactionsInput.output_to_file p"
      "length (json_dumps w
             (JObj [(''query'', JStr (query p)),
                    (''count'', JInt (int (length matches))),
                    (''total_milliunits'', JInt total_milliunits),
                    (''total'', JStr total_display),
                    (''transactions'', JList (map JObj matches))])) \<le> 25000"
    using h by (rule search_body_inline)
  show ?thesis
    apply (rule conjI)
     apply (rule eq)
    apply (rule impI)
    apply (elim conjE)
    apply (rule tool)
           apply assumption
          apply assumption
         apply (simp only: eq)
        apply assumption+
    done
qed


subsection \<open>The search tool on the example environment\<close>

lemma lower_examples:
  "ascii_lower ''COFFEE'' = ''coffee''"
  "ascii_lower ''Blue Bottle Coffee'' = ''blue bottle coffee''"
  "ascii_lower ''Office coffee run'' = ''office coffee run''"
  "ascii_lower ''Staples'' = ''staples''"
  "ascii_lower ''Employer'' = ''employer''"
  "ascii_lower [] = []"
  by (simp_all add: ascii_lower_def lower_char_def)

lemma in_examples:
  "py_in ''coffee'' ''blue bottle coffee''"
  "py_in ''coffee'' ''office coffee run''"
  "\<not> py_in ''coffee'' ''staples''"
  "\<not> py_in ''coffee'' ''employer''"
  "\<not> py_in ''coffee'' []"
  by simp_all

lemma coffee_total: "milliunits_to_dollars (- 16840) = Inr ''-$16.84''"
  by (simp add: milliunits_to_dollars_def py_int_truediv_def float_eval string_eval)

lemma coffee_search:
  "search_matches ascii_lower (ascii_lower ''COFFEE'') example_transactions = Inr coffee_matches"
  by (simp add: example_transactions_def coffee_matches_def matches_query_def attr_or_empty_def
      dict_get_def lower_examples in_examples transform_transaction_def
      transform_amount_fields_def display_examples)

lemma coffee_sum: "sum_amount_milliunits coffee_matches = Inr (- 16840)"
  by (simp add: coffee_matches_def dict_get_def)

lemma coffee_length: "length (render_json coffee_document) \<le> 25000"
  by (simp add: coffee_document_def coffee_matches_def py_str_int_def digits_of.simps
      digit_char_def)

theorem search_includes_substring_matches_witness:
  "map_result transform_transaction
     (filter (\<lambda>t.
        (\<exists>ps ss. ascii_lower (case map_of t ''payee_name'' of Some (JStr s) \<Rightarrow> s | _ \<Rightarrow> [])
                   = ps @ ascii_lower ''COFFEE'' @ ss)
        \<or> (\<exists>ps ss. ascii_lower (case map_of t ''memo'' of Some (JStr s) \<Rightarrow> s | _ \<Rightarrow> [])
                   = ps @ ascii_lower ''COFFEE'' @ ss)) example_transactions)
     = Inr coffee_matches
   \<and> \<not> SearchTransactionsInput.summary_only inline_search
   \<and> \<not> SearchTransactionsInput.output_to_file inline_search
   \<and> ynab_search_transactions inline_search example_world =
       (Inr (render_json coffee_document), example_world)"
proof -
  note T = search_includes_substring_matches [where lower = ascii_lower and q = "''COFFEE''"
      and ts = example_transactions and w = example_world and p = inline_search
      and response = example_transactions and matches = coffee_matches
      and total_milliunits = "- 16840" and total_display = "''-$16.84''"]
  have w: "str_lower example_world = ascii_lower" "json_dumps example_world = render_json"
    "py_truthy (env_api_key example_world)"
    "api_get_transactions example_world b s = Inr example_transactions" for b s
    by (simp_all add: example_world_def)
  have p: "query inline_search = ''COFFEE''"
    "\<not> SearchTransactionsInput.summary_only inline_search"
    "\<not> SearchTransactionsInput.output_to_file inline_search"
    by (simp_all add: inline_search_def)
  have n: "int (length coffee_matches) = 2" by (simp add: coffee_matches_def)
  have filt: "map_result transform_transaction
     (filter (\<lambda>t.
        (\<exists>ps ss. ascii_lower (case map_of t ''payee_name'' of Some (JStr s) \<Rightarrow> s | _ \<Rightarrow> [])
                   = ps @ ascii_lower ''COFFEE'' @ ss)
        \<or> (\<exists>ps ss. ascii_lower (case map_of t ''memo'' of Some (JStr s) \<Rightarrow> s | _ \<Rightarrow> [])
                   = ps @ ascii_lower ''COFFEE'' @ ss)) example_transactions)
     = Inr coffee_matches"
    using T [THEN conjunct1] coffee_search by simp
  have step: "ynab_search_transactions inline_search example_world =
       (Inr (json_dumps example_world
          (JObj [(''query'', JStr (query inline_search)),
                 (''count'', JInt (int (length coffee_matches))),
                 (''total_milliunits'', JInt (- 16840)),
                 (''total'', JStr ''-$16.84''),
                 (''transactions'', JList (map JObj coffee_matches))])), example_world)"
  proof (rule mp [OF T [THEN conjunct2]])
    have filt': "map_result transform_transaction
        (filter (\<lambda>t.
           (\<exists>ps ss. str_lower example_world
                (case map_of t ''payee_name'' of Some (JStr s) \<Rightarrow> s | _ \<Rightarrow> [])
                      = ps @ str_lower example_world (query inline_search) @ ss)
           \<or> (\<exists>ps ss. str_lower example_world
                (case map_of t ''memo'' of Some (JStr s) \<Rightarrow> s | _ \<Rightarrow> [])
                      = ps @ str_lower example_world (query inline_search) @ ss))
          example_transactions) = Inr coffee_matches"
      using filt by (simp only: w(1) p(1))
    have len: "length (json_dumps example_world
             (JObj [(''query'', JStr (query inline_search)),
                    (''count'', JInt (int (length coffee_matches))),
                    (''total_milliunits'', JInt (- 16840)),
                    (''total'', JStr ''-$16.84''),
                    (''transactions'', JList (map JObj coffee_matches))])) \<le> 25000"
      using coffee_length by (simp only: w(2) p(1) n coffee_document_def)
    show "py_truthy (env_api_key example_world)
        \<and> api_get_transactions example_world (SearchTransactionsInput.budget_id inline_search)
              (SearchTransactionsInput.since_date inline_search) = Inr example_transactions
        \<and> map_result transform_transaction
              (filter (\<lambda>t.
                 (\<exists>ps ss. str_lower example_world
                      (case map_of t ''payee_name'' of Some (JStr s) \<Rightarrow> s | _ \<Rightarrow> [])
                            = ps @ str_lower example_world (query inline_search) @ ss)
                 \<or> (\<exists>ps ss. str_lower example_world
                      (case map_of t ''memo'' of Some (JStr s) \<Rightarrow> s | _ \<Rightarrow> [])
                            = ps @ str_lower example_world (query inline_search) @ ss))
                example_transactions) = Inr coffee_matches
        \<and> sum_amount_milliunits coffee_matches = Inr (- 16840)
        \<and> milliunits_to_dollars (- 16840) = Inr ''-$16.84''
        \<and> \<not> SearchTransactionsInput.summary_only inline_search
        \<and> \<not> SearchTransactionsInput.output_to_file inline_search
        \<and> length (json_dumps example_world
             (JObj [(''query'', JStr (query inline_search)),
                    (''count'', JInt (int (length coffee_matches))),
                    (''total_milliunits'', JInt (- 16840)),
                    (''total'', JStr ''-$16.84''),
                    (''transactions'', JList (map JObj coffee_matches))])) \<le> 25000"
      by (intro conjI w(3) w(4) filt' coffee_sum coffee_total p(2) p(3) len)
  qed
  then show ?thesis using filt p by (simp add: w(2) n coffee_document_def)
qed


subsection \<open>Validation of the amount inputs\<close>

text \<open>
  C4. For the three inputs with a single amount (update of a category's month
  budget, creation of a transaction, creation of a scheduled transaction) the
  validator returns the parameter object exactly when one of
  \<open>amount_milliunits\<close> and \<open>amount_dollars\<close> is present and the other is not.
  With both or neither, building the parameters raises the validation error, and
  the call ends there: the tool is not run, so no request has been sent and the
  environment is as it was. With exactly one, the call is the tool on the
  parameters.
\<close>

theorem exactly_one_amount_validation:
  "((\<exists>params. UpdateCategoryBudgetInput_exactly_one_amount u = Inr params) \<longleftrightarrow>
      (UpdateCategoryBudgetInput.amount_milliunits u = None)
        \<noteq> (UpdateCategoryBudgetInput.amount_dollars u = None))
   \<and> ((\<exists>params. CreateTransactionInput_exactly_one_amount c = Inr params) \<longleftrightarrow>
      (CreateTransactionInput.amount_milliunits c = None)
        \<noteq> (CreateTransactionInput.amount_dollars c = None))
   \<and> ((\<exists>params. CreateScheduledTransactionInput_exactly_one_amount s = Inr params) \<longleftrightarrow>
      (CreateScheduledTransactionInput.amount_milliunits s = None)
        \<noteq> (CreateScheduledTransactionInput.amount_dollars s = None))
   \<and> call_tool UpdateCategoryBudgetInput_exactly_one_amount ynab_update_category_budget u w =
       (if (UpdateCategoryBudgetInput.amount_milliunits u = None)
             \<noteq> (UpdateCategoryBudgetInput.amount_dollars u = None)
        then ynab_update_category_budget u w
        else (Inl (PyException ''ValidationError''
                ''Provide exactly one of amount_milliunits or amount_dollars''), w))
   \<and> call_tool CreateTransactionInput_exactly_one_amount ynab_create_transaction c w =
       (if (CreateTransactionInput.amount_milliunits c = None)
             \<noteq> (CreateTransactionInput.amount_dollars c = None)
        then ynab_create_transaction c w
        else (Inl (PyException ''ValidationError''
                ''Provide exactly one of amount_milliunits or amount_dollars''), w))
   \<and> call_tool CreateScheduledTransactionInput_exactly_one_amount
         ynab_create_scheduled_transaction s w =
       (if (CreateScheduledTransactionInput.amount_milliunits s = None)
             \<noteq> (CreateScheduledTransactionInput.amount_dollars s = None)
        then ynab_create_scheduled_transaction s w
        else (Inl (PyException ''ValidationError''
                ''Provide exactly one of amount_milliunits or amount_dollars''), w))"
  unfolding call_tool_def UpdateCategoryBudgetInput_exactly_one_amount_def
    CreateTransactionInput_exactly_one_amount_def
    CreateScheduledTransactionInput_exactly_one_amount_def Let_def
  by (intro conjI; cases "UpdateCategoryBudgetInput.amount_milliunits u";
      cases "UpdateCategoryBudgetInput.amount_dollars u";
      cases "CreateTransactionInput.amount_milliunits c";
      cases "CreateTransactionInput.amount_dollars c";
      cases "CreateScheduledTransactionInput.amount_milliunits s";
      cases "CreateScheduledTransactionInput.amount_dollars s"; simp)

lemma five_milliunits: "dollars_to_milliunits (Finite 5 0) = Inr 5000"
  by (simp add: dollars_to_milliunits_def float_eval)

lemma create_writes:
  assumes "amount_from_inputs (CreateTransactionInput.amount_milliunits c)
             (CreateTransactionInput.amount_dollars c) = Inr a"
  shows "map fst (upstream_writes (snd (ynab_create_transaction c example_world)))
           = [''create_transaction'']"
  using assms
  by (simp add: ynab_create_transaction_def ynab_create_transaction_body_def get_api_client_def
      example_world_def Let_def split: sum.splits)

theorem exactly_one_amount_validation_witness:
  "call_tool CreateTransactionInput_exactly_one_amount ynab_create_transaction
       (example_create\<lparr>CreateTransactionInput.amount_milliunits := Some 5000,
          CreateTransactionInput.amount_dollars := Some (Finite 5 0)\<rparr>) example_world
     = (Inl (PyException ''ValidationError''
              ''Provide exactly one of amount_milliunits or amount_dollars''), example_world)
   \<and> call_tool CreateTransactionInput_exactly_one_amount ynab_create_transaction
       example_create example_world
     = (Inl (PyException ''ValidationError''
              ''Provide exactly one of amount_milliunits or amount_dollars''), example_world)
   \<and> (\<exists>params. CreateTransactionInput_exactly_one_amount
         (example_create\<lparr>CreateTransactionInput.amount_milliunits := Some 5000\<rparr>) = Inr params)
   \<and> map fst (upstream_writes (snd (call_tool CreateTransactionInput_exactly_one_amount
         ynab_create_transaction
         (example_create\<lparr>CreateTransactionInput.amount_milliunits := Some 5000\<rparr>)
         example_world))) = [''create_transaction'']
   \<and> (\<exists>params. CreateTransactionInput_exactly_one_amount
         (example_create\<lparr>CreateTransactionInput.amount_dollars := Some (Finite 5 0)\<rparr>)
           = Inr params)
   \<and> map fst (upstream_writes (snd (call_tool CreateTransactionInput_exactly_one_amount
         ynab_create_transaction
         (example_create\<lparr>CreateTransactionInput.amount_dollars := Some (Finite 5 0)\<rparr>)
         example_world))) = [''create_transaction'']"
proof -
  note T = exactly_one_amount_validation [where w = example_world]
  have a: "amount_from_inputs (Some 5000) None = Inr 5000"
    "amount_from_inputs None (Some (Finite 5 0)) = Inr 5000"
    by (simp_all add: amount_from_inputs_def five_milliunits)
  have w1: "map fst (upstream_writes (snd (ynab_create_transaction
         (example_create\<lparr>CreateTransactionInput.amount_milliunits := Some 5000\<rparr>)
         example_world))) = [''create_transaction'']"
    by (rule create_writes [where a = 5000]) (simp add: example_create_def a)
  have w2: "map fst (upstream_writes (snd (ynab_create_transaction
         (example_create\<lparr>CreateTransactionInput.amount_dollars := Some (Finite 5 0)\<rparr>)
         example_world))) = [''create_transaction'']"
    by (rule create_writes [where a = 5000]) (simp add: example_create_def a)
  have e: "CreateTransactionInput.amount_milliunits example_create = None"
    "CreateTransactionInput.amount_dollars example_create = None"
    by (simp_all add: example_create_def)
  show ?thesis
    using T [where c = "example_create\<lparr>CreateTransactionInput.amount_milliunits := Some 5000,
          CreateTransactionInput.amount_dollars := Some (Finite 5 0)\<rparr>"]
      T [where c = example_create]
      T [where c = "example_create\<lparr>CreateTransactionInput.amount_milliunits := Some 5000\<rparr>"]
      T [where c = "example_create\<lparr>CreateTransactionInput.amount_dollars := Some (Finite 5 0)\<rparr>"]
      w1 w2 e
    by simp
qed

end
